theory Spec2Isabelle
  imports Main
begin

section \<open>Managed objects and the properties of a source virtual machine\<close>

text \<open>
  The clone workflow of \<^verbatim>\<open>vsphere/internal/vmworkflow/virtual_machine_clone_subresource.go\<close>
  reads the declared configuration, asks the management plane about the source virtual
  machine, and builds a clone request. The vim25 types it handles are declared outside the
  repository; the records below carry the fields the workflow reads and writes, named as
  the Go code names them.
\<close>

text \<open>\<^verbatim>\<open>types.ManagedObjectReference\<close>: the workflow compares references by \<^verbatim>\<open>.Value\<close>.\<close>

record ManagedObjectReference =
  Type :: string
  Value :: string

text \<open>
  \<^verbatim>\<open>types.VirtualMachineSnapshotTree\<close>: a snapshot node with its own reference and its
  children.
\<close>

datatype VirtualMachineSnapshotTree =
  SnapshotTree (Snapshot: ManagedObjectReference) (ChildSnapshotList: "VirtualMachineSnapshotTree list")

text \<open>
  \<^verbatim>\<open>types.VirtualMachineSnapshotInfo\<close>: the root list and the current-snapshot pointer.
  The pointer is the one line 212 copies into the pointer field \<^verbatim>\<open>spec.Snapshot\<close>; it is
  \<open>None\<close> when the management plane reports no current snapshot.
\<close>

record VirtualMachineSnapshotInfo =
  CurrentSnapshot :: "ManagedObjectReference option"
  RootSnapshotList :: "VirtualMachineSnapshotTree list"

text \<open>
  \<^verbatim>\<open>types.SharesInfo\<close> and \<^verbatim>\<open>types.VirtualEthernetCardResourceAllocation\<close>: \<^verbatim>\<open>Limit\<close> and
  \<^verbatim>\<open>Reservation\<close> are pointers to 64-bit integers, \<^verbatim>\<open>Shares\<close> is a 32-bit integer.
\<close>

record SharesInfo =
  Shares :: int
  Level :: string

record VirtualEthernetCardResourceAllocation =
  Reservation :: "int option"
  Share :: SharesInfo
  Limit :: "int option"

text \<open>
  \<^verbatim>\<open>types.VirtualEthernetCard\<close>, the part shared by every network adapter type. The
  builder writes through \<^verbatim>\<open>ResourceAllocation\<close> (lines 334-339), a pointer that is \<open>None\<close>
  on a card that carries no resource allocation.
\<close>

type_synonym BackingInfo = string

record VirtualEthernetCard =
  Key :: int
  Backing :: BackingInfo
  ResourceAllocation :: "VirtualEthernetCardResourceAllocation option"
  AddressType :: string
  MacAddress :: string

text \<open>
  \<^verbatim>\<open>types.BaseVirtualDevice\<close>: the hardware list is heterogeneous. A device either
  implements \<^verbatim>\<open>types.BaseVirtualEthernetCard\<close> or it does not (a disk, a controller \<dots>),
  in which case only its key is kept.
\<close>

datatype VirtualDevice = EthernetCard VirtualEthernetCard | OtherDevice int

text \<open>
  \<^verbatim>\<open>types.VirtualMachineConfigInfo\<close> and \<^verbatim>\<open>mo.VirtualMachine\<close>. The snapshot tree and the
  vApp configuration are pointers the workflow tests against \<^verbatim>\<open>nil\<close>.
\<close>

record VirtualMachineConfigInfo =
  Uuid :: string
  GuestId :: string
  Hardware_Device :: "VirtualDevice list"
  VAppConfig :: "string list option"

record mo_VirtualMachine =
  vm_Config :: VirtualMachineConfigInfo
  vm_Snapshot :: "VirtualMachineSnapshotInfo option"

section \<open>Errors\<close>

text \<open>
  One constructor for each \<^verbatim>\<open>fmt.Errorf\<close> of the workflow, carrying the values the message
  is formatted from, in the order of the format string. An error a collaborator returned
  and the workflow passes on unchanged is a \<open>DelegateFailure\<close>. \<open>HostNotInPool\<close> is the
  error of the host membership check. A run-time panic ends the Go function without a
  return; it is the outcome \<open>NilPointerPanic\<close> for the dereference of a \<^verbatim>\<open>nil\<close> pointer and
  \<open>TypeAssertionPanic\<close> for a failed type assertion, in the place of the error.
\<close>

datatype error =
    CannotLocateVM string string
  | FetchPropertiesFailed string
  | InvalidGuestID string string
  | MustHaveSnapshot string
  | MustHaveOneRootSnapshot string nat
  | RootSnapshotHasChildren string
  | CurrentSnapshotMismatch string
  | DatastoreNotFound string
  | ResourcePoolNotFound string string
  | HostSystemNotFound string string
  | OSFamilyNotFound string string
  | HostNotInPool string string
  | DelegateFailure string
  | NilPointerPanic
  | TypeAssertionPanic

section \<open>Snapshot eligibility for linked clones\<close>

text \<open>
  \<^verbatim>\<open>validateCloneSnapshots\<close> (lines 154-171). A Go \<^verbatim>\<open>error\<close> result is an \<open>error option\<close>,
  \<open>None\<close> for \<^verbatim>\<open>nil\<close>. The index \<open>0\<close> is read only after the length was found to be 1.
  Line 167 reads \<^verbatim>\<open>props.Snapshot.CurrentSnapshot.Value\<close> with no test of the pointer, and
  panics when it is \<^verbatim>\<open>nil\<close>.
\<close>

definition validateCloneSnapshots :: "mo_VirtualMachine \<Rightarrow> error option" where
  "validateCloneSnapshots props =
     (case vm_Snapshot props of
        None \<Rightarrow> Some (MustHaveSnapshot (Uuid (vm_Config props)))
      | Some snapshot \<Rightarrow>
          if length (RootSnapshotList snapshot) \<noteq> 1
          then Some (MustHaveOneRootSnapshot (Uuid (vm_Config props))
                       (length (RootSnapshotList snapshot)))
          else if length (ChildSnapshotList (RootSnapshotList snapshot ! 0)) > 0
          then Some (RootSnapshotHasChildren (Uuid (vm_Config props)))
          else (case CurrentSnapshot snapshot of
                  None \<Rightarrow> Some NilPointerPanic
                | Some current \<Rightarrow>
                    if Value current \<noteq> Value (Snapshot (RootSnapshotList snapshot ! 0))
                    then Some (CurrentSnapshotMismatch (Uuid (vm_Config props)))
                    else None))"

section \<open>The declared configuration\<close>

text \<open>
  One declared \<^verbatim>\<open>network_interface\<close> block, with the keys the instant clone builder reads.
\<close>

record NetworkInterface =
  network_id :: string
  bandwidth_limit :: int
  bandwidth_reservation :: int
  bandwidth_share_level :: string
  bandwidth_share_count :: int
  use_static_mac :: bool
  mac_address :: string

text \<open>
  \<^verbatim>\<open>schema.ResourceData\<close> and \<^verbatim>\<open>schema.ResourceDiff\<close>, read by string key in the Go code, as
  a record of the keys the workflow reads. \<open>clone_template_uuid_known\<close> is what
  \<^verbatim>\<open>d.NewValueKnown("clone.0.template_uuid")\<close> answers during planning; \<open>vapp_transport\<close> is
  the key \<^verbatim>\<open>d.SetNew\<close> writes. The \<open>disk\<close> blocks and the \<open>clone_customize\<close> blocks are
  read by the collaborating packages only. \<open>extra_config\<close> is a Go map.
\<close>

record ResourceData =
  name :: string
  guest_id :: string
  datastore_id :: string
  resource_pool_id :: string
  host_system_id :: string
  extra_config :: "string \<rightharpoonup> string"
  network_interface :: "NetworkInterface list"
  disk :: "string list"
  clone_template_uuid :: string
  clone_template_uuid_known :: bool
  clone_linked_clone :: bool
  clone_customize :: "string list"
  instantclone_source_uuid :: string
  vapp_transport :: "string list"

text \<open>
  \<^verbatim>\<open>d.GetOk(key)\<close> on a string key: the value is set and is not the zero value.
\<close>

definition GetOk :: "string \<Rightarrow> bool" where
  "GetOk v = (v \<noteq> [])"

section \<open>The management plane and the collaborating packages\<close>

text \<open>
  The helpers the workflow calls with the \<^verbatim>\<open>*govmomi.Client\<close> live outside the sources
  and answer from the state of the remote side, so each is a parameter: a field of the
  client, named as the Go call. A helper whose error the workflow formats with \<^verbatim>\<open>%s\<close> or
  passes on answers with a message; handles are managed object references.
  \<open>resourcepool_ValidateHost\<close> answers with the error the builder returns as it is.
\<close>

type_synonym VirtualMachineRelocateSpecDiskLocator = string

record Client =
  datastore_FromID :: "string \<Rightarrow> string + ManagedObjectReference"
  virtualmachine_FromUUID :: "string \<Rightarrow> string + ManagedObjectReference"
  virtualmachine_Properties :: "ManagedObjectReference \<Rightarrow> string + mo_VirtualMachine"
  resourcepool_FromID :: "string \<Rightarrow> string + ManagedObjectReference"
  resourcepool_OSFamily :: "ManagedObjectReference \<Rightarrow> string \<Rightarrow> string + string"
  resourcepool_ValidateHost ::
    "ManagedObjectReference \<Rightarrow> ManagedObjectReference option \<Rightarrow> error option"
  hostsystem_FromID :: "string \<Rightarrow> string + ManagedObjectReference"
  network_FromID :: "string \<Rightarrow> string + ManagedObjectReference"
  EthernetCardBackingInfo :: "ManagedObjectReference \<Rightarrow> string + BackingInfo"
  DiskCloneValidateOperation :: "ResourceData \<Rightarrow> VirtualDevice list \<Rightarrow> bool \<Rightarrow> string option"
  DiskCloneRelocateOperation ::
    "ResourceData \<Rightarrow> VirtualDevice list \<Rightarrow> string + VirtualMachineRelocateSpecDiskLocator list"
  ValidateCustomizationSpec :: "ResourceData \<Rightarrow> string \<Rightarrow> string option"

text \<open>
  Modelled from the spec: \<^verbatim>\<open>resourcepool.ValidateHost\<close> is not among the sources. Section 4.2
  step 4 of the spec: if a target host is declared, verify that the host is a member of
  the resolved resource pool's compute environment, failing with \<open>HostNotInPool\<close>
  otherwise. \<open>hosts pool\<close> lists the hosts of the pool's compute environment; with no
  host declared there is nothing to verify.
\<close>

definition ValidateHost ::
  "(ManagedObjectReference \<Rightarrow> ManagedObjectReference list)
     \<Rightarrow> ManagedObjectReference \<Rightarrow> ManagedObjectReference option \<Rightarrow> error option" where
  "ValidateHost hosts pool hs =
     (case hs of
        None \<Rightarrow> None
      | Some host \<Rightarrow>
          if host \<in> set (hosts pool) then None
          else Some (HostNotInPool (Value host) (Value pool)))"

section \<open>Pre-creation validation\<close>

text \<open>
  \<^verbatim>\<open>ValidateVirtualMachineClone\<close> (lines 84-149). The result is the diff, which
  \<^verbatim>\<open>d.SetNew("vapp_transport", ...)\<close> may have written, and the Go \<^verbatim>\<open>error\<close>. The first
  \<open>case\<close> is the block under \<^verbatim>\<open>d.NewValueKnown\<close> (lines 86-127), the second the
  customization block (lines 130-146).
\<close>

definition ValidateVirtualMachineClone :: "ResourceData \<Rightarrow> Client \<Rightarrow> ResourceData \<times> error option" where
  "ValidateVirtualMachineClone d c =
     (let tUUID = clone_template_uuid d in
      case (if clone_template_uuid_known d then
              (case virtualmachine_FromUUID c tUUID of
                 Inl err \<Rightarrow> Inl (CannotLocateVM tUUID err)
               | Inr vm \<Rightarrow>
                   (case virtualmachine_Properties c vm of
                      Inl err \<Rightarrow> Inl (FetchPropertiesFailed err)
                    | Inr vprops \<Rightarrow>
                        (let eGuestID = GuestId (vm_Config vprops);
                             aGuestID = guest_id d in
                         if eGuestID \<noteq> aGuestID then Inl (InvalidGuestID aGuestID eGuestID)
                         else
                           (let linked = clone_linked_clone d in
                            case (if linked then validateCloneSnapshots vprops else None) of
                              Some err \<Rightarrow> Inl err
                            | None \<Rightarrow>
                                (let l = Hardware_Device (vm_Config vprops) in
                                 case DiskCloneValidateOperation c d l linked of
                                   Some err \<Rightarrow> Inl (DelegateFailure err)
                                 | None \<Rightarrow>
                                     (case VAppConfig (vm_Config vprops) of
                                        Some transport \<Rightarrow> Inr (d\<lparr>vapp_transport := transport\<rparr>)
                                      | None \<Rightarrow> Inr d))))))
            else Inr d) of
        Inl err \<Rightarrow> (d, Some err)
      | Inr d \<Rightarrow>
          if length (clone_customize d) > 0 then
            if GetOk (resource_pool_id d) then
              (let poolID = resource_pool_id d in
               case resourcepool_FromID c poolID of
                 Inl err \<Rightarrow> (d, Some (ResourcePoolNotFound poolID err))
               | Inr pool \<Rightarrow>
                   (case resourcepool_OSFamily c pool (guest_id d) of
                      Inl err \<Rightarrow> (d, Some (OSFamilyNotFound (guest_id d) err))
                    | Inr family \<Rightarrow>
                        (case ValidateCustomizationSpec c d family of
                           Some err \<Rightarrow> (d, Some (DelegateFailure err))
                         | None \<Rightarrow> (d, None))))
            else (d, None)
          else (d, None))"

section \<open>The clone requests\<close>

text \<open>
  \<^verbatim>\<open>types.VirtualDeviceConfigSpec\<close>, \<^verbatim>\<open>types.OptionValue\<close>,
  \<^verbatim>\<open>types.VirtualMachineRelocateSpec\<close> and the two clone specs. A pointer field is an
  \<open>option\<close>, \<open>None\<close> while unset; \<^verbatim>\<open>var spec\<close> starts from the zero value of the type.
\<close>

record VirtualDeviceConfigSpec =
  Operation :: string
  Device :: VirtualDevice

record OptionValue =
  opt_Key :: string
  opt_Value :: string

record VirtualMachineRelocateSpec =
  Datastore :: "ManagedObjectReference option"
  DiskMoveType :: string
  Pool :: "ManagedObjectReference option"
  Host :: "ManagedObjectReference option"
  Folder :: "ManagedObjectReference option"
  Disk :: "VirtualMachineRelocateSpecDiskLocator list"
  DeviceChange :: "VirtualDeviceConfigSpec list"

record VirtualMachineCloneSpec =
  spec_Location :: VirtualMachineRelocateSpec
  spec_Snapshot :: "ManagedObjectReference option"

record VirtualMachineInstantCloneSpec =
  ispec_Name :: string
  ispec_Location :: VirtualMachineRelocateSpec
  ispec_Config :: "OptionValue list"

definition zero_RelocateSpec :: VirtualMachineRelocateSpec where
  "zero_RelocateSpec =
     \<lparr>Datastore = None, DiskMoveType = [], Pool = None, Host = None, Folder = None,
      Disk = [], DeviceChange = []\<rparr>"

definition zero_CloneSpec :: VirtualMachineCloneSpec where
  "zero_CloneSpec = \<lparr>spec_Location = zero_RelocateSpec, spec_Snapshot = None\<rparr>"

definition zero_InstantCloneSpec :: VirtualMachineInstantCloneSpec where
  "zero_InstantCloneSpec =
     \<lparr>ispec_Name = [], ispec_Location = zero_RelocateSpec, ispec_Config = []\<rparr>"

text \<open>The vim25 constants the builders write, with the values the API gives them.\<close>

definition VirtualMachineRelocateDiskMoveOptionsCreateNewChildDiskBacking :: string where
  "VirtualMachineRelocateDiskMoveOptionsCreateNewChildDiskBacking = ''createNewChildDiskBacking''"

definition VirtualEthernetCardMacTypeManual :: string where
  "VirtualEthernetCardMacTypeManual = ''manual''"

definition SharesLevelCustom :: string where
  "SharesLevelCustom = ''custom''"

definition VirtualDeviceConfigSpecOperationEdit :: string where
  "VirtualDeviceConfigSpecOperationEdit = ''edit''"

section \<open>The traditional clone spec\<close>

text \<open>
  \<^verbatim>\<open>ExpandVirtualMachineCloneSpec\<close> (lines 179-251). The Go function returns three values,
  the spec, the source handle and the error, and the model returns the same three: on
  every error path the spec as assembled so far, no handle, and the error.
  \<^verbatim>\<open>spec.Snapshot = vprops.Snapshot.CurrentSnapshot\<close> copies the pointer; it reads
  through \<^verbatim>\<open>vprops.Snapshot\<close>, which \<^verbatim>\<open>validateCloneSnapshots\<close> has found not to be \<^verbatim>\<open>nil\<close>.
\<close>

definition ExpandVirtualMachineCloneSpec ::
  "ResourceData \<Rightarrow> Client
     \<Rightarrow> VirtualMachineCloneSpec \<times> ManagedObjectReference option \<times> error option" where
  "ExpandVirtualMachineCloneSpec d c =
     (let spec = zero_CloneSpec in
      case (if GetOk (datastore_id d) then
              (case datastore_FromID c (datastore_id d) of
                 Inl err \<Rightarrow> Inl (DatastoreNotFound err)
               | Inr ds \<Rightarrow> Inr (spec\<lparr>spec_Location := (spec_Location spec)\<lparr>Datastore := Some ds\<rparr>\<rparr>))
            else Inr spec) of
        Inl err \<Rightarrow> (spec, None, Some err)
      | Inr spec \<Rightarrow>
          (let tUUID = clone_template_uuid d in
           case virtualmachine_FromUUID c tUUID of
             Inl err \<Rightarrow> (spec, None, Some (CannotLocateVM tUUID err))
           | Inr vm \<Rightarrow>
               (case virtualmachine_Properties c vm of
                  Inl err \<Rightarrow> (spec, None, Some (FetchPropertiesFailed err))
                | Inr vprops \<Rightarrow>
                    (case (if clone_linked_clone d then
                             (case validateCloneSnapshots vprops of
                                Some err \<Rightarrow> Inl err
                              | None \<Rightarrow>
                                  (case vm_Snapshot vprops of
                                     None \<Rightarrow> Inl NilPointerPanic
                                   | Some snapshot \<Rightarrow>
                                       Inr (spec\<lparr>spec_Snapshot := CurrentSnapshot snapshot,
                                                 spec_Location := (spec_Location spec)
                                                   \<lparr>DiskMoveType :=
                                                      VirtualMachineRelocateDiskMoveOptionsCreateNewChildDiskBacking\<rparr>\<rparr>)))
                           else Inr spec) of
                       Inl err \<Rightarrow> (spec, None, Some err)
                     | Inr spec \<Rightarrow>
                         (let poolID = resource_pool_id d in
                          case resourcepool_FromID c poolID of
                            Inl err \<Rightarrow> (spec, None, Some (ResourcePoolNotFound poolID err))
                          | Inr pool \<Rightarrow>
                              (case (if GetOk (host_system_id d) then
                                       (let hsID = host_system_id d in
                                        case hostsystem_FromID c hsID of
                                          Inl err \<Rightarrow> Inl (HostSystemNotFound hsID err)
                                        | Inr h \<Rightarrow> Inr (Some h))
                                     else Inr None) of
                                 Inl err \<Rightarrow> (spec, None, Some err)
                               | Inr hs \<Rightarrow>
                                   (case resourcepool_ValidateHost c pool hs of
                                      Some err \<Rightarrow> (spec, None, Some err)
                                    | None \<Rightarrow>
                                        (let spec = spec\<lparr>spec_Location :=
                                                      (spec_Location spec)\<lparr>Pool := Some pool\<rparr>\<rparr>;
                                             spec = (case hs of
                                                       Some hsRef \<Rightarrow>
                                                         spec\<lparr>spec_Location :=
                                                           (spec_Location spec)\<lparr>Host := Some hsRef\<rparr>\<rparr>
                                                     | None \<Rightarrow> spec);
                                             l = Hardware_Device (vm_Config vprops) in
                                         case DiskCloneRelocateOperation c d l of
                                           Inl err \<Rightarrow> (spec, None, Some (DelegateFailure err))
                                         | Inr relocators \<Rightarrow>
                                             (spec\<lparr>spec_Location :=
                                                (spec_Location spec)\<lparr>Disk := relocators\<rparr>\<rparr>,
                                              Some vm, None)))))))))"

section \<open>The instant clone spec\<close>

text \<open>
  \<^verbatim>\<open>range\<close> over a Go map visits every entry once, in an order the Go runtime picks anew
  for each loop. The order of one loop is the list \<open>keys\<close>, an enumeration of the keys of
  the map (\<open>map_iteration\<close>); \<open>range_map\<close> lists the entries in that order.
\<close>

definition map_iteration :: "('k \<rightharpoonup> 'v) \<Rightarrow> 'k list \<Rightarrow> bool" where
  "map_iteration m keys = (distinct keys \<and> set keys = dom m)"

definition range_map :: "('k \<rightharpoonup> 'v) \<Rightarrow> 'k list \<Rightarrow> ('k \<times> 'v) list" where
  "range_map m keys = List.map_filter (\<lambda>k. map_option (Pair k) (m k)) keys"

text \<open>
  \<^verbatim>\<open>device.(types.BaseVirtualEthernetCard)\<close> followed by \<^verbatim>\<open>GetVirtualEthernetCard()\<close>:
  the card of a network adapter, \<open>None\<close> where the type assertion fails.
\<close>

fun GetVirtualEthernetCard :: "VirtualDevice \<Rightarrow> VirtualEthernetCard option" where
  "GetVirtualEthernetCard (EthernetCard ethernetCard) = Some ethernetCard"
| "GetVirtualEthernetCard (OtherDevice k) = None"

text \<open>The predicate \<^verbatim>\<open>devices.Select\<close> is called with (lines 299-304).\<close>

definition is_ethernet_card :: "VirtualDevice \<Rightarrow> bool" where
  "is_ethernet_card device = (case GetVirtualEthernetCard device of Some _ \<Rightarrow> True | None \<Rightarrow> False)"

text \<open>The conversion \<^verbatim>\<open>int32(x)\<close> of a Go \<^verbatim>\<open>int\<close> keeps the low 32 bits, read as signed.\<close>

definition int32 :: "int \<Rightarrow> int" where
  "int32 x = signed_take_bit 31 x"

text \<open>
  Lines 328-349: the card of the device is rewritten from the declared interface
  \<open>ni = n[index]\<close> and the backing found for its network. The writes of lines 334-339 go
  through the pointer \<^verbatim>\<open>virtualEthernetCard.ResourceAllocation\<close> with no test of it: on a
  card without a resource allocation line 334 panics, and the result is \<open>None\<close>.
\<close>

definition configure_card ::
  "VirtualEthernetCard \<Rightarrow> BackingInfo \<Rightarrow> NetworkInterface \<Rightarrow> VirtualEthernetCard option" where
  "configure_card virtualEthernetCard backing ni =
     (let ethernetCard = virtualEthernetCard\<lparr>Backing := backing\<rparr>;
          bandwidthLimit = bandwidth_limit ni;
          bandwidthReservation = bandwidth_reservation ni in
      case ResourceAllocation ethernetCard of
        None \<Rightarrow> None
      | Some allocation \<Rightarrow>
          (let allocation = allocation\<lparr>Limit := Some bandwidthLimit\<rparr>;
               allocation = allocation\<lparr>Reservation := Some bandwidthReservation\<rparr>;
               allocation = allocation\<lparr>Share := (Share allocation)
                              \<lparr>Level := bandwidth_share_level ni\<rparr>\<rparr>;
               allocation = (if Level (Share allocation) = SharesLevelCustom
                             then allocation\<lparr>Share := (Share allocation)
                                    \<lparr>Shares := int32 (bandwidth_share_count ni)\<rparr>\<rparr>
                             else allocation);
               ethernetCard = ethernetCard\<lparr>ResourceAllocation := Some allocation\<rparr>
           in if use_static_mac ni
              then Some (ethernetCard\<lparr>AddressType := VirtualEthernetCardMacTypeManual,
                           MacAddress := mac_address ni\<rparr>)
              else Some (ethernetCard\<lparr>AddressType := [], MacAddress := []\<rparr>)))"

text \<open>
  The loop of lines 310-358 over the filtered devices, from \<open>index\<close> on, with the
  \<open>configSpecs\<close> collected so far. An error leaves the loop and the function at once, with
  the spec as it was at the end of the previous round. The devices are pointers: the
  device appended to \<open>configSpecs\<close> is the device of the hardware list, with the rewritten
  card. The type assertion of line 328 panics on a device that is no network adapter, and
  line 334 on a card without a resource allocation.
\<close>

fun update_network_devices ::
  "Client \<Rightarrow> NetworkInterface list \<Rightarrow> nat \<Rightarrow> VirtualDevice list \<Rightarrow> VirtualDeviceConfigSpec list
     \<Rightarrow> VirtualMachineInstantCloneSpec
     \<Rightarrow> (VirtualMachineInstantCloneSpec \<times> error) + VirtualMachineInstantCloneSpec" where
  "update_network_devices c n index [] configSpecs spec = Inr spec"
| "update_network_devices c n index (device # devices) configSpecs spec =
     (if index < length n then
        (case network_FromID c (network_id (n ! index)) of
           Inl err \<Rightarrow> Inl (spec, DelegateFailure err)
         | Inr net \<Rightarrow>
             (case EthernetCardBackingInfo c net of
                Inl err \<Rightarrow> Inl (spec, DelegateFailure err)
              | Inr backing \<Rightarrow>
                  (case GetVirtualEthernetCard device of
                     None \<Rightarrow> Inl (spec, TypeAssertionPanic)
                   | Some virtualEthernetCard \<Rightarrow>
                       (case configure_card virtualEthernetCard backing (n ! index) of
                          None \<Rightarrow> Inl (spec, NilPointerPanic)
                        | Some rewritten \<Rightarrow>
                            (let configSpecs = configSpecs @
                                   [\<lparr>Operation = VirtualDeviceConfigSpecOperationEdit,
                                     Device = EthernetCard rewritten\<rparr>]
                             in update_network_devices c n (index + 1) devices configSpecs
                                  (spec\<lparr>ispec_Location :=
                                     (ispec_Location spec)\<lparr>DeviceChange := configSpecs\<rparr>\<rparr>))))))
      else update_network_devices c n (index + 1) devices configSpecs
             (spec\<lparr>ispec_Location := (ispec_Location spec)\<lparr>DeviceChange := configSpecs\<rparr>\<rparr>))"

text \<open>
  The hardware list as line 371 reads it again after the loop: the cards were rewritten
  through their pointers, so the first network adapters of the list are the rewritten
  ones, in order, and every other device is as it was.
\<close>

fun rewritten_devices :: "VirtualDevice list \<Rightarrow> VirtualDevice list \<Rightarrow> VirtualDevice list" where
  "rewritten_devices [] changed = []"
| "rewritten_devices (device # devices) [] = device # devices"
| "rewritten_devices (device # devices) (new # changed) =
     (if is_ethernet_card device then new # rewritten_devices devices changed
      else device # rewritten_devices devices (new # changed))"

text \<open>
  \<^verbatim>\<open>ExpandVirtualMachineInstantCloneSpec\<close> (lines 258-379), with the order \<open>keys\<close> in which
  this run's \<^verbatim>\<open>range ec\<close> visits the extra configuration. \<open>fo\<close> is the reference of the
  target folder.
\<close>

definition ExpandVirtualMachineInstantCloneSpec ::
  "string list \<Rightarrow> ResourceData \<Rightarrow> Client \<Rightarrow> ManagedObjectReference
     \<Rightarrow> VirtualMachineInstantCloneSpec \<times> ManagedObjectReference option \<times> error option" where
  "ExpandVirtualMachineInstantCloneSpec keys d c fo =
     (let spec = zero_InstantCloneSpec in
      case (if GetOk (datastore_id d) then
              (case datastore_FromID c (datastore_id d) of
                 Inl err \<Rightarrow> Inl (DatastoreNotFound err)
               | Inr ds \<Rightarrow> Inr (spec\<lparr>ispec_Location := (ispec_Location spec)\<lparr>Datastore := Some ds\<rparr>\<rparr>))
            else Inr spec) of
        Inl err \<Rightarrow> (spec, None, Some err)
      | Inr spec \<Rightarrow>
          (let spec = spec\<lparr>ispec_Name := name d\<rparr>;
               spec = spec\<lparr>ispec_Location := (ispec_Location spec)\<lparr>Folder := Some fo\<rparr>\<rparr>;
               ec = extra_config d;
               spec = spec\<lparr>ispec_Config := ispec_Config spec @
                        map (\<lambda>(k, v). \<lparr>opt_Key = k, opt_Value = v\<rparr>) (range_map ec keys)\<rparr>;
               srcUUID = instantclone_source_uuid d in
           case virtualmachine_FromUUID c srcUUID of
             Inl err \<Rightarrow> (spec, None, Some (CannotLocateVM srcUUID err))
           | Inr srcVM \<Rightarrow>
               (case virtualmachine_Properties c srcVM of
                  Inl err \<Rightarrow> (spec, None, Some (FetchPropertiesFailed err))
                | Inr vprops \<Rightarrow>
                    (let devices = filter is_ethernet_card (Hardware_Device (vm_Config vprops));
                         n = network_interface d in
                     case update_network_devices c n 0 devices [] spec of
                       Inl (spec, err) \<Rightarrow> (spec, None, Some err)
                     | Inr spec \<Rightarrow>
                         (let poolID = resource_pool_id d in
                          case resourcepool_FromID c poolID of
                            Inl err \<Rightarrow> (spec, None, Some (ResourcePoolNotFound poolID err))
                          | Inr pool \<Rightarrow>
                              (let spec = spec\<lparr>ispec_Location :=
                                            (ispec_Location spec)\<lparr>Pool := Some pool\<rparr>\<rparr>;
                                   l = rewritten_devices (Hardware_Device (vm_Config vprops))
                                         (map Device (DeviceChange (ispec_Location spec))) in
                               case DiskCloneRelocateOperation c d l of
                                 Inl err \<Rightarrow> (spec, None, Some (DelegateFailure err))
                               | Inr relocators \<Rightarrow>
                                   (spec\<lparr>ispec_Location :=
                                      (ispec_Location spec)\<lparr>Disk := relocators\<rparr>\<rparr>,
                                    Some srcVM, None)))))))"

section \<open>Notions used in the statements\<close>

text \<open>
  The source of a clone as both builders and the validator find it: the handle
  \<^verbatim>\<open>virtualmachine.FromUUID\<close> resolves and the properties \<^verbatim>\<open>virtualmachine.Properties\<close>
  fetches for it.
\<close>

definition source_of ::
  "Client \<Rightarrow> string \<Rightarrow> (ManagedObjectReference \<times> mo_VirtualMachine) option" where
  "source_of c uuid =
     (case virtualmachine_FromUUID c uuid of
        Inl err \<Rightarrow> None
      | Inr vm \<Rightarrow>
          (case virtualmachine_Properties c vm of
             Inl err \<Rightarrow> None
           | Inr vprops \<Rightarrow> Some (vm, vprops)))"

text \<open>
  The datastore step of both builders on its own (lines 185-191 and 264-270), and the
  host step of the traditional builder (lines 223-230): the reference found, none when
  the key is not set, or the error.
\<close>

definition locate_datastore :: "ResourceData \<Rightarrow> Client \<Rightarrow> error + ManagedObjectReference option" where
  "locate_datastore d c =
     (if GetOk (datastore_id d) then
        (case datastore_FromID c (datastore_id d) of
           Inl err \<Rightarrow> Inl (DatastoreNotFound err)
         | Inr ds \<Rightarrow> Inr (Some ds))
      else Inr None)"

definition locate_host :: "ResourceData \<Rightarrow> Client \<Rightarrow> error + ManagedObjectReference option" where
  "locate_host d c =
     (if GetOk (host_system_id d) then
        (case hostsystem_FromID c (host_system_id d) of
           Inl err \<Rightarrow> Inl (HostSystemNotFound (host_system_id d) err)
         | Inr h \<Rightarrow> Inr (Some h))
      else Inr None)"

text \<open>
  A device-change instruction pairs a device with a declared interface when it is an edit
  operation that wraps this device, its card rewritten from this declaration and from the
  backing of the declared network.
\<close>

definition paired_edit ::
  "Client \<Rightarrow> VirtualDevice \<Rightarrow> NetworkInterface \<Rightarrow> VirtualDeviceConfigSpec \<Rightarrow> bool" where
  "paired_edit c device ni change =
     (Operation change = ''edit'' \<and>
      (\<exists>ethernetCard net backing rewritten.
          device = EthernetCard ethernetCard
        \<and> network_FromID c (network_id ni) = Inr net
        \<and> EthernetCardBackingInfo c net = Inr backing
        \<and> configure_card ethernetCard backing ni = Some rewritten
        \<and> Device change = EthernetCard rewritten))"

section \<open>Example configurations\<close>

text \<open>
  A source with three network adapters among its devices, two of them with a manual MAC
  address, a management plane that knows it, and a declared configuration.
\<close>

definition example_reference :: "string \<Rightarrow> string \<Rightarrow> ManagedObjectReference" where
  "example_reference t v = \<lparr>Type = t, Value = v\<rparr>"

definition example_allocation :: VirtualEthernetCardResourceAllocation where
  "example_allocation =
     \<lparr>Reservation = Some 0, Share = \<lparr>Shares = 50, Level = ''normal''\<rparr>, Limit = Some (- 1)\<rparr>"

definition example_card :: "int \<Rightarrow> string \<Rightarrow> string \<Rightarrow> VirtualDevice" where
  "example_card k mode mac =
     EthernetCard \<lparr>Key = k, Backing = ''VM Network'', ResourceAllocation = Some example_allocation,
       AddressType = mode, MacAddress = mac\<rparr>"

definition example_hardware :: "VirtualDevice list" where
  "example_hardware =
     [OtherDevice 1000,
      example_card 4000 ''manual'' ''00:50:56:00:00:01'',
      OtherDevice 2000,
      example_card 4001 ''assigned'' ''00:50:56:9a:00:02'',
      example_card 4002 ''manual'' ''00:50:56:00:00:03'']"

definition example_source :: "VirtualMachineSnapshotInfo option \<Rightarrow> mo_VirtualMachine" where
  "example_source snapshot =
     \<lparr>vm_Config = \<lparr>Uuid = ''4207a1c2'', GuestId = ''otherLinux64Guest'',
        Hardware_Device = example_hardware, VAppConfig = None\<rparr>,
      vm_Snapshot = snapshot\<rparr>"

definition example_snapshot :: "string \<Rightarrow> VirtualMachineSnapshotTree list \<Rightarrow> VirtualMachineSnapshotTree" where
  "example_snapshot v children = SnapshotTree (example_reference ''VirtualMachineSnapshot'' v) children"

definition example_single_snapshot :: VirtualMachineSnapshotInfo where
  "example_single_snapshot =
     \<lparr>CurrentSnapshot = Some (example_reference ''VirtualMachineSnapshot'' ''snapshot-12''),
      RootSnapshotList = [example_snapshot ''snapshot-12'' []]\<rparr>"

definition example_two_roots :: VirtualMachineSnapshotInfo where
  "example_two_roots =
     \<lparr>CurrentSnapshot = Some (example_reference ''VirtualMachineSnapshot'' ''snapshot-12''),
      RootSnapshotList = [example_snapshot ''snapshot-12'' [], example_snapshot ''snapshot-13'' []]\<rparr>"

definition example_root_with_child :: VirtualMachineSnapshotInfo where
  "example_root_with_child =
     \<lparr>CurrentSnapshot = Some (example_reference ''VirtualMachineSnapshot'' ''snapshot-12''),
      RootSnapshotList = [example_snapshot ''snapshot-12'' [example_snapshot ''snapshot-13'' []]]\<rparr>"

definition example_current_elsewhere :: VirtualMachineSnapshotInfo where
  "example_current_elsewhere =
     \<lparr>CurrentSnapshot = Some (example_reference ''VirtualMachineSnapshot'' ''snapshot-15''),
      RootSnapshotList = [example_snapshot ''snapshot-12'' []]\<rparr>"

text \<open>
  A tree whose current-snapshot reference has the managed object ID of the root but is
  not the reference of the root, and a tree with one root, no child and no current
  snapshot.
\<close>

definition example_current_of_other_type :: VirtualMachineSnapshotInfo where
  "example_current_of_other_type =
     \<lparr>CurrentSnapshot = Some (example_reference ''Folder'' ''snapshot-12''),
      RootSnapshotList = [example_snapshot ''snapshot-12'' []]\<rparr>"

definition example_no_current :: VirtualMachineSnapshotInfo where
  "example_no_current =
     \<lparr>CurrentSnapshot = None, RootSnapshotList = [example_snapshot ''snapshot-12'' []]\<rparr>"

text \<open>
  A source like \<open>example_source\<close> whose only network adapter carries no resource
  allocation.
\<close>

definition example_source_without_allocation :: mo_VirtualMachine where
  "example_source_without_allocation =
     \<lparr>vm_Config = \<lparr>Uuid = ''4207a1c2'', GuestId = ''otherLinux64Guest'',
        Hardware_Device =
          [OtherDevice 1000,
           EthernetCard \<lparr>Key = 4000, Backing = ''VM Network'', ResourceAllocation = None,
             AddressType = ''assigned'', MacAddress = ''00:50:56:9a:00:02''\<rparr>],
        VAppConfig = None\<rparr>,
      vm_Snapshot = None\<rparr>"

definition example_interface :: "string \<Rightarrow> bool \<Rightarrow> string \<Rightarrow> NetworkInterface" where
  "example_interface net static mac =
     \<lparr>network_id = net, bandwidth_limit = - 1, bandwidth_reservation = 0,
      bandwidth_share_level = ''normal'', bandwidth_share_count = 0,
      use_static_mac = static, mac_address = mac\<rparr>"

definition example_hosts :: "ManagedObjectReference \<Rightarrow> ManagedObjectReference list" where
  "example_hosts pool = [example_reference ''HostSystem'' ''host-9'']"

definition example_client :: "mo_VirtualMachine \<Rightarrow> Client" where
  "example_client source =
     \<lparr>datastore_FromID = (\<lambda>i. Inr (example_reference ''Datastore'' i)),
      virtualmachine_FromUUID =
        (\<lambda>u. if u = ''4207a1c2'' then Inr (example_reference ''VirtualMachine'' ''vm-42'')
             else Inl ''not found''),
      virtualmachine_Properties = (\<lambda>vm. Inr source),
      resourcepool_FromID =
        (\<lambda>i. if i = ''resgroup-8'' then Inr (example_reference ''ResourcePool'' i)
             else Inl ''not found''),
      resourcepool_OSFamily =
        (\<lambda>pool g. if g = ''otherLinux64Guest'' then Inr ''linuxGuest'' else Inl ''unknown guest''),
      resourcepool_ValidateHost = ValidateHost example_hosts,
      hostsystem_FromID = (\<lambda>i. Inr (example_reference ''HostSystem'' i)),
      network_FromID = (\<lambda>i. Inr (example_reference ''Network'' i)),
      EthernetCardBackingInfo = (\<lambda>net. Inr (Value net)),
      DiskCloneValidateOperation = (\<lambda>d l linked. None),
      DiskCloneRelocateOperation = (\<lambda>d l. Inr (disk d)),
      ValidateCustomizationSpec = (\<lambda>d family. None)\<rparr>"

definition example_config :: ResourceData where
  "example_config =
     \<lparr>name = ''clone-01'', guest_id = ''otherLinux64Guest'', datastore_id = ''datastore-11'',
      resource_pool_id = ''resgroup-8'', host_system_id = [],
      extra_config = [''guestinfo.a'' \<mapsto> ''1'', ''guestinfo.b'' \<mapsto> ''2''],
      network_interface =
        [example_interface ''network-7'' False ''00:50:56:aa:bb:01'',
         example_interface ''network-8'' True ''00:50:56:aa:bb:02''],
      disk = [''disk0''],
      clone_template_uuid = ''4207a1c2'', clone_template_uuid_known = True,
      clone_linked_clone = False, clone_customize = [],
      instantclone_source_uuid = ''4207a1c2'', vapp_transport = []\<rparr>"

definition example_folder :: ManagedObjectReference where
  "example_folder = example_reference ''Folder'' ''group-v3''"

text \<open>
  A plan in which the source identifier is not known yet, with a customization block and a
  guest ID that no OS family is known for.
\<close>

definition example_unknown_source :: ResourceData where
  "example_unknown_source =
     example_config\<lparr>clone_template_uuid := [], clone_template_uuid_known := False,
       guest_id := ''notAGuest'', clone_customize := [''customize'']\<rparr>"

section \<open>Properties of the snapshot check and of the loops\<close>

text \<open>
  The facts the claims share: what a successful run of each builder went through, the
  invariant of the loop over the network adapters, and the list of entries a map
  iteration yields. \<open>example_defs\<close> and \<open>evaluation_defs\<close> unfold the examples and the
  small definitions when a statement is evaluated on an example.
\<close>

lemmas example_defs =
  example_reference_def example_card_def example_hardware_def example_source_def
  example_allocation_def example_current_of_other_type_def example_no_current_def
  example_source_without_allocation_def
  example_snapshot_def example_single_snapshot_def example_two_roots_def
  example_root_with_child_def example_current_elsewhere_def example_interface_def
  example_hosts_def example_client_def example_config_def example_folder_def

lemmas evaluation_defs =
  GetOk_def is_ethernet_card_def range_map_def List.map_filter_def configure_card_def
  zero_RelocateSpec_def zero_CloneSpec_def zero_InstantCloneSpec_def Let_def
  VirtualMachineRelocateDiskMoveOptionsCreateNewChildDiskBacking_def
  VirtualEthernetCardMacTypeManual_def SharesLevelCustom_def
  VirtualDeviceConfigSpecOperationEdit_def validateCloneSnapshots_def ValidateHost_def
  source_of_def locate_datastore_def locate_host_def

lemma validateCloneSnapshots_ok:
  "validateCloneSnapshots props = None \<longleftrightarrow>
     (\<exists>snapshot current. vm_Snapshot props = Some snapshot
        \<and> length (RootSnapshotList snapshot) = 1
        \<and> ChildSnapshotList (RootSnapshotList snapshot ! 0) = []
        \<and> CurrentSnapshot snapshot = Some current
        \<and> Value current = Value (Snapshot (RootSnapshotList snapshot ! 0)))"
  by (auto simp: validateCloneSnapshots_def split: option.splits)

lemma source_of_Some:
  "source_of c uuid = Some (vm, vprops) \<longleftrightarrow>
     virtualmachine_FromUUID c uuid = Inr vm \<and> virtualmachine_Properties c vm = Inr vprops"
  by (auto simp: source_of_def split: sum.splits)

text \<open>One round of the loop that goes on to the next device.\<close>

lemma update_network_devices_round:
  assumes "update_network_devices c n index (device # devices) configSpecs spec = Inr spec'"
  obtains (paired) change where "index < length n" "paired_edit c device (n ! index) change"
      "update_network_devices c n (index + 1) devices (configSpecs @ [change])
         (spec\<lparr>ispec_Location := (ispec_Location spec)\<lparr>DeviceChange := configSpecs @ [change]\<rparr>\<rparr>)
       = Inr spec'"
    | (skipped) "\<not> index < length n"
      "update_network_devices c n (index + 1) devices configSpecs
         (spec\<lparr>ispec_Location := (ispec_Location spec)\<lparr>DeviceChange := configSpecs\<rparr>\<rparr>)
       = Inr spec'"
proof (cases "index < length n")
  case True
  with assms obtain net backing ethernetCard rewritten where
    "network_FromID c (network_id (n ! index)) = Inr net"
    "EthernetCardBackingInfo c net = Inr backing"
    "device = EthernetCard ethernetCard"
    "configure_card ethernetCard backing (n ! index) = Some rewritten"
    "update_network_devices c n (index + 1) devices
       (configSpecs @ [\<lparr>Operation = VirtualDeviceConfigSpecOperationEdit,
                        Device = EthernetCard rewritten\<rparr>])
       (spec\<lparr>ispec_Location := (ispec_Location spec)
          \<lparr>DeviceChange := configSpecs @ [\<lparr>Operation = VirtualDeviceConfigSpecOperationEdit,
                                           Device = EthernetCard rewritten\<rparr>]\<rparr>\<rparr>)
     = Inr spec'"
    by (cases device) (auto simp: Let_def split: sum.splits option.splits)
  with True show ?thesis
    by (intro paired[of "\<lparr>Operation = VirtualDeviceConfigSpecOperationEdit,
                          Device = EthernetCard rewritten\<rparr>"])
       (simp_all add: paired_edit_def VirtualDeviceConfigSpecOperationEdit_def)
next
  case False
  with assms show ?thesis by (intro skipped) simp_all
qed

lemma update_network_devices_frame:
  "update_network_devices c n index devices configSpecs spec = Inr spec' \<Longrightarrow>
     spec' = spec\<lparr>ispec_Location := (ispec_Location spec)\<lparr>DeviceChange := DeviceChange (ispec_Location spec')\<rparr>\<rparr>"
proof (induction devices arbitrary: index configSpecs spec)
  case Nil
  then show ?case by simp
next
  case (Cons device devices)
  from Cons.prems show ?case
  proof (cases rule: update_network_devices_round)
    case (paired change)
    from Cons.IH[OF paired(3)] show ?thesis by simp
  next
    case skipped
    from Cons.IH[OF skipped(2)] show ?thesis by simp
  qed
qed

lemma update_network_devices_fields:
  assumes "update_network_devices c n index devices configSpecs spec = Inr spec'"
  shows "ispec_Name spec' = ispec_Name spec"
    and "ispec_Config spec' = ispec_Config spec"
    and "Datastore (ispec_Location spec') = Datastore (ispec_Location spec)"
    and "Folder (ispec_Location spec') = Folder (ispec_Location spec)"
proof -
  from update_network_devices_frame[OF assms] obtain changes where
    eq: "spec' = spec\<lparr>ispec_Location := (ispec_Location spec)\<lparr>DeviceChange := changes\<rparr>\<rparr>"
    by blast
  show "ispec_Name spec' = ispec_Name spec"
    and "ispec_Config spec' = ispec_Config spec"
    and "Datastore (ispec_Location spec') = Datastore (ispec_Location spec)"
    and "Folder (ispec_Location spec') = Folder (ispec_Location spec)"
    by (simp_all add: eq)
qed

lemma update_network_devices_changes:
  "update_network_devices c n index devices configSpecs spec = Inr spec' \<Longrightarrow>
   devices \<noteq> [] \<Longrightarrow>
     \<exists>new. DeviceChange (ispec_Location spec') = configSpecs @ new
        \<and> length new = min (length devices) (length n - index)
        \<and> (\<forall>i < length new. paired_edit c (devices ! i) (n ! (index + i)) (new ! i))"
proof (induction devices arbitrary: index configSpecs spec)
  case Nil
  then show ?case by simp
next
  case (Cons device devices)
  from Cons.prems(1) show ?case
  proof (cases rule: update_network_devices_round)
    case (paired change)
    show ?thesis
    proof (cases "devices = []")
      case True
      with paired(3) have "DeviceChange (ispec_Location spec') = configSpecs @ [change]"
        by auto
      with True paired(1,2) show ?thesis
        by (intro exI[of _ "[change]"]) auto
    next
      case False
      from Cons.IH[OF paired(3) False] obtain new where
        new: "DeviceChange (ispec_Location spec') = (configSpecs @ [change]) @ new"
        "length new = min (length devices) (length n - (index + 1))"
        "\<forall>i < length new. paired_edit c (devices ! i) (n ! (index + 1 + i)) (new ! i)"
        by blast
      have "\<forall>i < length (change # new).
              paired_edit c ((device # devices) ! i) (n ! (index + i)) ((change # new) ! i)"
      proof (intro allI impI)
        fix i assume "i < length (change # new)"
        then show "paired_edit c ((device # devices) ! i) (n ! (index + i)) ((change # new) ! i)"
          using paired(2) new(3) by (cases i) auto
      qed
      with new(1,2) paired(1) show ?thesis
        by (intro exI[of _ "change # new"]) auto
    qed
  next
    case skipped
    show ?thesis
    proof (cases "devices = []")
      case True
      with skipped show ?thesis by auto
    next
      case False
      from Cons.IH[OF skipped(2) False] skipped(1) show ?thesis by auto
    qed
  qed
qed

lemma expand_instant_success:
  assumes ok: "ExpandVirtualMachineInstantCloneSpec keys d c fo = (spec, vm, None)"
  obtains srcVM vprops ds spec1 pool relocators where
    "locate_datastore d c = Inr ds"
    "virtualmachine_FromUUID c (instantclone_source_uuid d) = Inr srcVM"
    "virtualmachine_Properties c srcVM = Inr vprops"
    "update_network_devices c (network_interface d) 0
       (filter is_ethernet_card (Hardware_Device (vm_Config vprops))) []
       \<lparr>ispec_Name = name d,
        ispec_Location = zero_RelocateSpec\<lparr>Datastore := ds, Folder := Some fo\<rparr>,
        ispec_Config = map (\<lambda>(k, v). \<lparr>opt_Key = k, opt_Value = v\<rparr>)
                         (range_map (extra_config d) keys)\<rparr> = Inr spec1"
    "resourcepool_FromID c (resource_pool_id d) = Inr pool"
    "DiskCloneRelocateOperation c d
       (rewritten_devices (Hardware_Device (vm_Config vprops))
          (map Device (DeviceChange (ispec_Location spec1)))) = Inr relocators"
    "spec = spec1\<lparr>ispec_Location := (ispec_Location spec1)\<lparr>Pool := Some pool, Disk := relocators\<rparr>\<rparr>"
    "vm = Some srcVM"
proof -
  note defs = ExpandVirtualMachineInstantCloneSpec_def Let_def zero_InstantCloneSpec_def
    locate_datastore_def
  obtain ds where ds: "locate_datastore d c = Inr ds"
    using ok by (cases "locate_datastore d c") (auto simp: defs split: if_splits sum.splits)
  obtain srcVM where vm: "virtualmachine_FromUUID c (instantclone_source_uuid d) = Inr srcVM"
    using ok ds by (cases "virtualmachine_FromUUID c (instantclone_source_uuid d)")
      (auto simp: defs split: if_splits sum.splits)
  obtain vprops where props: "virtualmachine_Properties c srcVM = Inr vprops"
    using ok ds vm by (cases "virtualmachine_Properties c srcVM")
      (auto simp: defs split: if_splits sum.splits)
  let ?spec0 = "\<lparr>ispec_Name = name d,
        ispec_Location = zero_RelocateSpec\<lparr>Datastore := ds, Folder := Some fo\<rparr>,
        ispec_Config = map (\<lambda>(k, v). \<lparr>opt_Key = k, opt_Value = v\<rparr>)
                         (range_map (extra_config d) keys)\<rparr>"
  let ?loop = "update_network_devices c (network_interface d) 0
       (filter is_ethernet_card (Hardware_Device (vm_Config vprops))) [] ?spec0"
  have step: "ExpandVirtualMachineInstantCloneSpec keys d c fo =
      (case ?loop of
         Inl (spec, err) \<Rightarrow> (spec, None, Some err)
       | Inr spec \<Rightarrow>
           (case resourcepool_FromID c (resource_pool_id d) of
              Inl err \<Rightarrow> (spec, None, Some (ResourcePoolNotFound (resource_pool_id d) err))
            | Inr pool \<Rightarrow>
                (case DiskCloneRelocateOperation c d
                        (rewritten_devices (Hardware_Device (vm_Config vprops))
                           (map Device (DeviceChange (ispec_Location spec)))) of
                   Inl err \<Rightarrow> (spec\<lparr>ispec_Location := (ispec_Location spec)\<lparr>Pool := Some pool\<rparr>\<rparr>,
                                None, Some (DelegateFailure err))
                 | Inr relocators \<Rightarrow>
                     (spec\<lparr>ispec_Location := (ispec_Location spec)\<lparr>Pool := Some pool,
                        Disk := relocators\<rparr>\<rparr>, Some srcVM, None))))"
    using ds vm props by (auto simp: defs zero_RelocateSpec_def split: if_splits sum.splits)
  obtain spec1 where loop: "?loop = Inr spec1"
    using ok unfolding step by (cases ?loop) (auto split: sum.splits)
  obtain pool where pool: "resourcepool_FromID c (resource_pool_id d) = Inr pool"
    using ok loop unfolding step by (cases "resourcepool_FromID c (resource_pool_id d)") auto
  obtain relocators where disk: "DiskCloneRelocateOperation c d
       (rewritten_devices (Hardware_Device (vm_Config vprops))
          (map Device (DeviceChange (ispec_Location spec1)))) = Inr relocators"
    using ok loop pool unfolding step by (cases "DiskCloneRelocateOperation c d
       (rewritten_devices (Hardware_Device (vm_Config vprops))
          (map Device (DeviceChange (ispec_Location spec1))))") auto
  have "spec = spec1\<lparr>ispec_Location := (ispec_Location spec1)\<lparr>Pool := Some pool, Disk := relocators\<rparr>\<rparr>"
    and "vm = Some srcVM"
    using ok loop pool disk unfolding step by auto
  with ds vm props loop pool disk show thesis by (rule that)
qed

lemma instant_clone_changes:
  assumes "ExpandVirtualMachineInstantCloneSpec keys d c fo = (spec, vm, None)"
      and "virtualmachine_FromUUID c (instantclone_source_uuid d) = Inr srcVM"
      and "virtualmachine_Properties c srcVM = Inr vprops"
  shows "length (DeviceChange (ispec_Location spec)) =
           min (length (filter is_ethernet_card (Hardware_Device (vm_Config vprops))))
               (length (network_interface d))"
    and "\<forall>i < length (DeviceChange (ispec_Location spec)).
           paired_edit c (filter is_ethernet_card (Hardware_Device (vm_Config vprops)) ! i)
             (network_interface d ! i) (DeviceChange (ispec_Location spec) ! i)"
proof -
  let ?devices = "filter is_ethernet_card (Hardware_Device (vm_Config vprops))"
  from assms(1) obtain srcVM' vprops' spec0 spec1 pool relocators where
    "virtualmachine_FromUUID c (instantclone_source_uuid d) = Inr srcVM'"
    "virtualmachine_Properties c srcVM' = Inr vprops'"
    and loop': "update_network_devices c (network_interface d) 0
       (filter is_ethernet_card (Hardware_Device (vm_Config vprops'))) [] spec0 = Inr spec1"
    and zero: "DeviceChange (ispec_Location spec0) = []"
    and spec: "spec = spec1\<lparr>ispec_Location := (ispec_Location spec1)\<lparr>Pool := Some pool, Disk := relocators\<rparr>\<rparr>"
    by (rule expand_instant_success) (simp add: zero_RelocateSpec_def)
  with assms(2,3) have loop: "update_network_devices c (network_interface d) 0 ?devices [] spec0 = Inr spec1"
    by simp
  have same: "DeviceChange (ispec_Location spec) = DeviceChange (ispec_Location spec1)"
    using spec by simp
  have "length (DeviceChange (ispec_Location spec1)) = min (length ?devices) (length (network_interface d))
      \<and> (\<forall>i < length (DeviceChange (ispec_Location spec1)).
           paired_edit c (?devices ! i) (network_interface d ! i) (DeviceChange (ispec_Location spec1) ! i))"
  proof (cases "?devices = []")
    case True
    with loop zero show ?thesis by auto
  next
    case False
    from update_network_devices_changes[OF loop False] show ?thesis by auto
  qed
  with same show "length (DeviceChange (ispec_Location spec)) =
           min (length ?devices) (length (network_interface d))"
    and "\<forall>i < length (DeviceChange (ispec_Location spec)).
           paired_edit c (?devices ! i) (network_interface d ! i) (DeviceChange (ispec_Location spec) ! i)"
    by simp_all
qed

lemma rewritten_devices_filter:
  "\<forall>x \<in> set changed. is_ethernet_card x \<Longrightarrow>
   length changed \<le> length (filter is_ethernet_card hw) \<Longrightarrow>
   filter is_ethernet_card (rewritten_devices hw changed)
     = changed @ drop (length changed) (filter is_ethernet_card hw)"
  by (induction hw changed rule: rewritten_devices.induct) auto

lemma rewritten_devices_others:
  "\<forall>x \<in> set changed. is_ethernet_card x \<Longrightarrow>
   filter (\<lambda>x. \<not> is_ethernet_card x) (rewritten_devices hw changed)
     = filter (\<lambda>x. \<not> is_ethernet_card x) hw"
  by (induction hw changed rule: rewritten_devices.induct) auto

lemma paired_edit_is_ethernet_card: "paired_edit c device ni change \<Longrightarrow> is_ethernet_card (Device change)"
  by (auto simp: paired_edit_def is_ethernet_card_def)

lemma expand_clone_steps:
  assumes ds: "locate_datastore d c = Inr ds"
      and src: "source_of c (clone_template_uuid d) = Some (vm, vprops)"
      and snap: "clone_linked_clone d \<longrightarrow> validateCloneSnapshots vprops = None"
      and pool: "resourcepool_FromID c (resource_pool_id d) = Inr pool"
      and host: "locate_host d c = Inr hs"
  shows "ExpandVirtualMachineCloneSpec d c =
     (let spec = \<lparr>spec_Location = zero_RelocateSpec
                    \<lparr>Datastore := ds,
                     DiskMoveType := (if clone_linked_clone d
                        then VirtualMachineRelocateDiskMoveOptionsCreateNewChildDiskBacking else [])\<rparr>,
                  spec_Snapshot = (if clone_linked_clone d
                        then Option.bind (vm_Snapshot vprops) CurrentSnapshot else None)\<rparr> in
      case resourcepool_ValidateHost c pool hs of
        Some err \<Rightarrow> (spec, None, Some err)
      | None \<Rightarrow>
          (case DiskCloneRelocateOperation c d (Hardware_Device (vm_Config vprops)) of
             Inl err \<Rightarrow> (spec\<lparr>spec_Location := (spec_Location spec)\<lparr>Pool := Some pool, Host := hs\<rparr>\<rparr>,
                          None, Some (DelegateFailure err))
           | Inr relocators \<Rightarrow>
               (spec\<lparr>spec_Location := (spec_Location spec)\<lparr>Pool := Some pool, Host := hs,
                   Disk := relocators\<rparr>\<rparr>, Some vm, None)))"
proof -
  from snap have "clone_linked_clone d \<longrightarrow> (\<exists>snapshot. vm_Snapshot vprops = Some snapshot)"
    by (auto simp: validateCloneSnapshots_ok)
  with assms show ?thesis
    by (auto simp: ExpandVirtualMachineCloneSpec_def Let_def zero_CloneSpec_def
          zero_RelocateSpec_def locate_datastore_def locate_host_def source_of_Some
        split: if_splits sum.splits option.splits)
qed

lemma expand_clone_success:
  assumes ok: "ExpandVirtualMachineCloneSpec d c = (spec, vm, None)"
  obtains ds srcVM vprops pool hs relocators where
    "locate_datastore d c = Inr ds"
    "source_of c (clone_template_uuid d) = Some (srcVM, vprops)"
    "clone_linked_clone d \<longrightarrow> validateCloneSnapshots vprops = None"
    "resourcepool_FromID c (resource_pool_id d) = Inr pool"
    "locate_host d c = Inr hs"
    "resourcepool_ValidateHost c pool hs = None"
    "DiskCloneRelocateOperation c d (Hardware_Device (vm_Config vprops)) = Inr relocators"
    "vm = Some srcVM"
    "spec = \<lparr>spec_Location = zero_RelocateSpec
               \<lparr>Datastore := ds,
                DiskMoveType := (if clone_linked_clone d
                   then VirtualMachineRelocateDiskMoveOptionsCreateNewChildDiskBacking else []),
                Pool := Some pool, Host := hs, Disk := relocators\<rparr>,
             spec_Snapshot = (if clone_linked_clone d
                   then Option.bind (vm_Snapshot vprops) CurrentSnapshot else None)\<rparr>"
proof -
  note defs = ExpandVirtualMachineCloneSpec_def Let_def zero_CloneSpec_def
    locate_datastore_def locate_host_def source_of_def
  obtain ds where ds: "locate_datastore d c = Inr ds"
    using ok by (cases "locate_datastore d c") (auto simp: defs split: if_splits sum.splits)
  obtain srcVM vprops where src: "source_of c (clone_template_uuid d) = Some (srcVM, vprops)"
    using ok ds by (cases "source_of c (clone_template_uuid d)")
      (auto simp: defs split: if_splits sum.splits)
  have snap: "clone_linked_clone d \<longrightarrow> validateCloneSnapshots vprops = None"
    using ok ds src by (cases "validateCloneSnapshots vprops")
      (auto simp: defs split: if_splits sum.splits)
  obtain pool where pool: "resourcepool_FromID c (resource_pool_id d) = Inr pool"
    using ok ds src snap by (cases "resourcepool_FromID c (resource_pool_id d)")
      (auto simp: defs split: if_splits sum.splits option.splits)
  obtain hs where host: "locate_host d c = Inr hs"
    using ok ds src snap pool by (cases "locate_host d c")
      (auto simp: defs split: if_splits sum.splits option.splits)
  note step = expand_clone_steps[OF ds src snap pool host]
  have check: "resourcepool_ValidateHost c pool hs = None"
    using ok unfolding step by (cases "resourcepool_ValidateHost c pool hs") (auto simp: Let_def)
  obtain relocators where
    disk: "DiskCloneRelocateOperation c d (Hardware_Device (vm_Config vprops)) = Inr relocators"
    using ok check unfolding step
    by (cases "DiskCloneRelocateOperation c d (Hardware_Device (vm_Config vprops))") (auto simp: Let_def)
  have "vm = Some srcVM" using ok check disk unfolding step by (auto simp: Let_def)
  moreover have "spec = \<lparr>spec_Location = zero_RelocateSpec
               \<lparr>Datastore := ds,
                DiskMoveType := (if clone_linked_clone d
                   then VirtualMachineRelocateDiskMoveOptionsCreateNewChildDiskBacking else []),
                Pool := Some pool, Host := hs, Disk := relocators\<rparr>,
             spec_Snapshot = (if clone_linked_clone d
                   then Option.bind (vm_Snapshot vprops) CurrentSnapshot else None)\<rparr>"
    using ok check disk unfolding step by (auto simp: Let_def zero_RelocateSpec_def)
  ultimately show thesis using ds src snap pool host check disk by (intro that)
qed

lemma validateCloneSnapshots_not_guest_id:
  "validateCloneSnapshots props \<noteq> Some (InvalidGuestID a e)"
  by (simp add: validateCloneSnapshots_def split: option.splits)

lemma configure_card_mac:
  assumes "configure_card ethernetCard backing ni = Some rewritten"
  shows "AddressType rewritten = (if use_static_mac ni then ''manual'' else [])"
    and "MacAddress rewritten = (if use_static_mac ni then mac_address ni else [])"
  using assms
  by (auto simp: configure_card_def Let_def VirtualEthernetCardMacTypeManual_def
           split: option.splits if_splits)

lemma paired_edit_mac:
  assumes "paired_edit c device ni change"
  obtains ethernetCard where "Device change = EthernetCard ethernetCard"
    "AddressType ethernetCard = (if use_static_mac ni then ''manual'' else [])"
    "MacAddress ethernetCard = (if use_static_mac ni then mac_address ni else [])"
proof -
  from assms obtain old backing rewritten where
    "configure_card old backing ni = Some rewritten" "Device change = EthernetCard rewritten"
    by (auto simp: paired_edit_def)
  with configure_card_mac[OF this(1)] show thesis by (intro that) simp_all
qed

lemma range_map_entries:
  "(k, v) \<in> set (range_map m keys) \<longleftrightarrow> k \<in> set keys \<and> m k = Some v"
  by (induction keys) (auto simp: range_map_def List.map_filter_def)

lemma range_map_keys:
  "set keys \<subseteq> dom m \<Longrightarrow> map fst (range_map m keys) = keys"
  by (induction keys) (auto simp: range_map_def List.map_filter_def)

lemma expand_instant_config:
  assumes "ExpandVirtualMachineInstantCloneSpec keys d c fo = (spec, vm, None)"
  shows "ispec_Config spec
           = map (\<lambda>(k, v). \<lparr>opt_Key = k, opt_Value = v\<rparr>) (range_map (extra_config d) keys)"
proof -
  from assms obtain srcVM vprops ds spec1 pool relocators where
    "locate_datastore d c = Inr ds"
    "virtualmachine_FromUUID c (instantclone_source_uuid d) = Inr srcVM"
    "virtualmachine_Properties c srcVM = Inr vprops"
    and loop: "update_network_devices c (network_interface d) 0
       (filter is_ethernet_card (Hardware_Device (vm_Config vprops))) []
       \<lparr>ispec_Name = name d,
        ispec_Location = zero_RelocateSpec\<lparr>Datastore := ds, Folder := Some fo\<rparr>,
        ispec_Config = map (\<lambda>(k, v). \<lparr>opt_Key = k, opt_Value = v\<rparr>)
                         (range_map (extra_config d) keys)\<rparr> = Inr spec1"
    and "resourcepool_FromID c (resource_pool_id d) = Inr pool"
    "DiskCloneRelocateOperation c d
       (rewritten_devices (Hardware_Device (vm_Config vprops))
          (map Device (DeviceChange (ispec_Location spec1)))) = Inr relocators"
    and spec: "spec = spec1\<lparr>ispec_Location := (ispec_Location spec1)\<lparr>Pool := Some pool, Disk := relocators\<rparr>\<rparr>"
    and "vm = Some srcVM"
    by (rule expand_instant_success)
  from update_network_devices_fields(2)[OF loop] spec show ?thesis by simp
qed

lemma config_entries:
  "set (map (\<lambda>(k, v). \<lparr>opt_Key = k, opt_Value = v\<rparr>) (range_map m keys))
     = {\<lparr>opt_Key = k, opt_Value = v\<rparr> | k v. k \<in> set keys \<and> m k = Some v}"
proof -
  have "set (map (\<lambda>(k, v). \<lparr>opt_Key = k, opt_Value = v\<rparr>) (range_map m keys))
      = (\<lambda>(k, v). \<lparr>opt_Key = k, opt_Value = v\<rparr>) ` {(k, v). k \<in> set keys \<and> m k = Some v}"
    using range_map_entries[of _ _ m keys] by auto
  also have "\<dots> = {\<lparr>opt_Key = k, opt_Value = v\<rparr> | k v. k \<in> set keys \<and> m k = Some v}"
    by auto
  finally show ?thesis .
qed

lemma update_network_devices_no_panic:
  "\<forall>device \<in> set devices. is_ethernet_card device \<Longrightarrow>
   update_network_devices c n index devices configSpecs spec \<noteq> Inl (spec', TypeAssertionPanic)"
  by (induction devices arbitrary: index configSpecs spec)
     (auto simp: Let_def is_ethernet_card_def split: sum.splits option.splits)

section \<open>The claims\<close>

subsection \<open>The snapshot check\<close>






subsection \<open>The validator\<close>

text \<open>
  Claim C2 as stated fails: with the source identifier not known yet, a customization
  block and a resource pool ID, the validator still asks for the OS family of the declared
  guest ID, and an invalid guest ID makes validation fail.
\<close>

theorem unknown_source_fails_counterexample:
  "\<not> clone_template_uuid_known example_unknown_source
   \<and> snd (ValidateVirtualMachineClone example_unknown_source (example_client (example_source None)))
       = Some (OSFamilyNotFound ''notAGuest'' ''unknown guest'')"
  by (simp add: ValidateVirtualMachineClone_def example_unknown_source_def example_defs evaluation_defs)

text \<open>
  Claim C2, amended. When the source identifier is not known yet,
  \<^verbatim>\<open>ValidateVirtualMachineClone\<close> skips the template checks: the diff is left as it is, the
  answers of the source lookup, of the property fetch and of the disk validation play no
  part, and validation succeeds whenever no customization block is declared or no
  resource pool ID is set. With a customization block and a resource pool ID the
  customization checks run and decide the result; a failure is one of theirs: the
  resource pool is not found, no OS family is found for the declared guest ID, or the
  customization validator refuses.
\<close>

theorem unknown_source_defers_template_checks:
  assumes "\<not> clone_template_uuid_known d"
  shows "fst (ValidateVirtualMachineClone d c) = d
       \<and> (clone_customize d = [] \<or> \<not> GetOk (resource_pool_id d) \<longrightarrow>
            snd (ValidateVirtualMachineClone d c) = None)
       \<and> ValidateVirtualMachineClone d
            (c\<lparr>virtualmachine_FromUUID := locate, virtualmachine_Properties := fetch,
               DiskCloneValidateOperation := disks\<rparr>)
          = ValidateVirtualMachineClone d c
       \<and> (\<forall>err. snd (ValidateVirtualMachineClone d c) = Some err \<longrightarrow>
            (\<exists>msg. err = ResourcePoolNotFound (resource_pool_id d) msg
                 \<or> err = OSFamilyNotFound (guest_id d) msg
                 \<or> err = DelegateFailure msg))
       \<and> (clone_customize d \<noteq> [] \<and> GetOk (resource_pool_id d) \<longrightarrow>
            snd (ValidateVirtualMachineClone d c)
              = (case resourcepool_FromID c (resource_pool_id d) of
                   Inl msg \<Rightarrow> Some (ResourcePoolNotFound (resource_pool_id d) msg)
                 | Inr pool \<Rightarrow>
                     (case resourcepool_OSFamily c pool (guest_id d) of
                        Inl msg \<Rightarrow> Some (OSFamilyNotFound (guest_id d) msg)
                      | Inr family \<Rightarrow>
                          (case ValidateCustomizationSpec c d family of
                             Some msg \<Rightarrow> Some (DelegateFailure msg)
                           | None \<Rightarrow> None))))"
  using assms
  by (auto simp: ValidateVirtualMachineClone_def Let_def split: sum.splits option.splits)

theorem unknown_source_defers_template_checks_witness:
  "ValidateVirtualMachineClone (example_unknown_source\<lparr>clone_customize := []\<rparr>)
       (example_client (example_source None))
     = (example_unknown_source\<lparr>clone_customize := []\<rparr>, None)
   \<and> ValidateVirtualMachineClone (example_unknown_source\<lparr>clone_customize := []\<rparr>)
       (example_client (example_source None)
          \<lparr>virtualmachine_FromUUID := (\<lambda>uuid. Inl ''unreachable''),
           virtualmachine_Properties := (\<lambda>vm. Inl ''unreachable''),
           DiskCloneValidateOperation := (\<lambda>d l linked. Some ''unreachable'')\<rparr>)
     = (example_unknown_source\<lparr>clone_customize := []\<rparr>, None)"
proof -
  let ?c = "example_client (example_source None)"
  let ?d = "example_unknown_source\<lparr>clone_customize := []\<rparr>"
  have unknown: "\<not> clone_template_uuid_known ?d"
    by (simp add: example_unknown_source_def)
  have none: "clone_customize ?d = []" by simp
  from unknown_source_defers_template_checks[OF unknown, where c = ?c
      and locate = "\<lambda>uuid. Inl ''unreachable''" and fetch = "\<lambda>vm. Inl ''unreachable''"
      and disks = "\<lambda>d l linked. Some ''unreachable''"] none
  show ?thesis
    by (metis prod.collapse)
qed

text \<open>
  Claim C4. When the source identifier is known and the source is found,
  \<^verbatim>\<open>ValidateVirtualMachineClone\<close> fails with the guest-ID error if and only if the declared
  guest ID differs from the guest ID of the source, whatever the linked-clone flag and the
  customization blocks are; the error names the declared guest ID and the guest ID of the
  source.
\<close>

theorem guest_id_check_is_pure_equality:
  assumes "clone_template_uuid_known d"
      and "source_of c (clone_template_uuid d) = Some (vm, vprops)"
  shows "((\<exists>a e. snd (ValidateVirtualMachineClone
                      (d\<lparr>clone_linked_clone := linked, clone_customize := customize\<rparr>) c)
                  = Some (InvalidGuestID a e))
          \<longleftrightarrow> guest_id d \<noteq> GuestId (vm_Config vprops))
       \<and> (guest_id d \<noteq> GuestId (vm_Config vprops) \<longrightarrow>
            snd (ValidateVirtualMachineClone
                   (d\<lparr>clone_linked_clone := linked, clone_customize := customize\<rparr>) c)
              = Some (InvalidGuestID (guest_id d) (GuestId (vm_Config vprops))))"
  using assms validateCloneSnapshots_not_guest_id[of vprops]
  by (auto simp: ValidateVirtualMachineClone_def Let_def source_of_Some
           split: sum.splits option.splits if_splits)

theorem guest_id_check_is_pure_equality_witness:
  "snd (ValidateVirtualMachineClone
          (example_config\<lparr>guest_id := ''ubuntu64Guest'', clone_linked_clone := True,
             clone_customize := [''customize'']\<rparr>)
          (example_client (example_source None)))
     = Some (InvalidGuestID ''ubuntu64Guest'' ''otherLinux64Guest'')
   \<and> snd (ValidateVirtualMachineClone
          (example_config\<lparr>guest_id := ''ubuntu64Guest'', clone_linked_clone := False,
             clone_customize := []\<rparr>)
          (example_client (example_source None)))
     = Some (InvalidGuestID ''ubuntu64Guest'' ''otherLinux64Guest'')
   \<and> (\<nexists>a e. snd (ValidateVirtualMachineClone
          (example_config\<lparr>clone_linked_clone := True, clone_customize := []\<rparr>)
          (example_client (example_source None)))
     = Some (InvalidGuestID a e))"
proof -
  let ?c = "example_client (example_source None)"
  let ?bad = "example_config\<lparr>guest_id := ''ubuntu64Guest''\<rparr>"
  have known: "clone_template_uuid_known ?bad" "clone_template_uuid_known example_config"
    by (simp_all add: example_defs)
  have src: "source_of ?c (clone_template_uuid ?bad)
               = Some (example_reference ''VirtualMachine'' ''vm-42'', example_source None)"
    "source_of ?c (clone_template_uuid example_config)
               = Some (example_reference ''VirtualMachine'' ''vm-42'', example_source None)"
    by (simp_all add: example_defs evaluation_defs)
  from guest_id_check_is_pure_equality[OF known(1) src(1), where linked = True
      and customize = "[''customize'']"]
    guest_id_check_is_pure_equality[OF known(1) src(1), where linked = False and customize = "[]"]
    guest_id_check_is_pure_equality[OF known(2) src(2), where linked = True and customize = "[]"]
  show ?thesis
    by (simp add: example_defs)
qed

subsection \<open>The traditional clone builder\<close>

text \<open>
  Claim C6. Whenever \<^verbatim>\<open>ExpandVirtualMachineCloneSpec\<close> produces a spec: with the
  linked-clone flag set, snapshot eligibility holds for the source, the snapshot
  reference of the spec is the current snapshot of the source and the disk-move policy
  is \<^verbatim>\<open>createNewChildDiskBacking\<close>; with the flag not set, the snapshot reference is unset
  and the disk-move policy is empty. No other field depends on the flag: the same
  configuration with the flag off yields the same spec with these two fields cleared,
  and the same handle, as long as the Device Reconciler, which is handed the whole
  configuration, returns the same relocation instructions.
\<close>

theorem linked_clone_sets_two_fields:
  assumes "ExpandVirtualMachineCloneSpec d c = (spec, vm, None)"
      and "source_of c (clone_template_uuid d) = Some (srcVM, vprops)"
  shows "(if clone_linked_clone d
          then validateCloneSnapshots vprops = None
             \<and> (\<exists>snapshot current. vm_Snapshot vprops = Some snapshot
                   \<and> CurrentSnapshot snapshot = Some current
                   \<and> spec_Snapshot spec = Some current)
             \<and> DiskMoveType (spec_Location spec) = ''createNewChildDiskBacking''
          else spec_Snapshot spec = None \<and> DiskMoveType (spec_Location spec) = [])
       \<and> (DiskCloneRelocateOperation c (d\<lparr>clone_linked_clone := False\<rparr>)
              (Hardware_Device (vm_Config vprops))
            = DiskCloneRelocateOperation c d (Hardware_Device (vm_Config vprops)) \<longrightarrow>
          ExpandVirtualMachineCloneSpec (d\<lparr>clone_linked_clone := False\<rparr>) c
            = (spec\<lparr>spec_Snapshot := None,
                    spec_Location := (spec_Location spec)\<lparr>DiskMoveType := []\<rparr>\<rparr>, vm, None))"
proof -
  from assms(1) obtain ds srcVM' vprops' pool hs relocators where
    ds: "locate_datastore d c = Inr ds"
    and src': "source_of c (clone_template_uuid d) = Some (srcVM', vprops')"
    and snap': "clone_linked_clone d \<longrightarrow> validateCloneSnapshots vprops' = None"
    and pool: "resourcepool_FromID c (resource_pool_id d) = Inr pool"
    and host: "locate_host d c = Inr hs"
    and check: "resourcepool_ValidateHost c pool hs = None"
    and disk': "DiskCloneRelocateOperation c d (Hardware_Device (vm_Config vprops')) = Inr relocators"
    and vm: "vm = Some srcVM'"
    and spec': "spec = \<lparr>spec_Location = zero_RelocateSpec
               \<lparr>Datastore := ds,
                DiskMoveType := (if clone_linked_clone d
                   then VirtualMachineRelocateDiskMoveOptionsCreateNewChildDiskBacking else []),
                Pool := Some pool, Host := hs, Disk := relocators\<rparr>,
             spec_Snapshot = (if clone_linked_clone d
                   then Option.bind (vm_Snapshot vprops') CurrentSnapshot else None)\<rparr>"
    by (rule expand_clone_success)
  from src' assms(2) have same: "srcVM' = srcVM" "vprops' = vprops" by simp_all
  note snap = snap'[unfolded same] and disk = disk'[unfolded same] and spec = spec'[unfolded same]
    and src = src'[unfolded same]
  have fields: "if clone_linked_clone d
          then validateCloneSnapshots vprops = None
             \<and> (\<exists>snapshot current. vm_Snapshot vprops = Some snapshot
                   \<and> CurrentSnapshot snapshot = Some current
                   \<and> spec_Snapshot spec = Some current)
             \<and> DiskMoveType (spec_Location spec) = ''createNewChildDiskBacking''
          else spec_Snapshot spec = None \<and> DiskMoveType (spec_Location spec) = []"
  proof (cases "clone_linked_clone d")
    case True
    with snap have ok: "validateCloneSnapshots vprops = None" by simp
    then obtain snapshot current where "vm_Snapshot vprops = Some snapshot"
      "CurrentSnapshot snapshot = Some current"
      by (auto simp: validateCloneSnapshots_ok)
    with True ok spec show ?thesis
      by (simp add: VirtualMachineRelocateDiskMoveOptionsCreateNewChildDiskBacking_def)
  next
    case False
    with spec show ?thesis by simp
  qed
  have frame: "ExpandVirtualMachineCloneSpec (d\<lparr>clone_linked_clone := False\<rparr>) c
            = (spec\<lparr>spec_Snapshot := None,
                    spec_Location := (spec_Location spec)\<lparr>DiskMoveType := []\<rparr>\<rparr>, vm, None)"
    if same_disks: "DiskCloneRelocateOperation c (d\<lparr>clone_linked_clone := False\<rparr>)
              (Hardware_Device (vm_Config vprops))
            = DiskCloneRelocateOperation c d (Hardware_Device (vm_Config vprops))"
  proof -
    let ?d = "d\<lparr>clone_linked_clone := False\<rparr>"
    have "locate_datastore ?d c = locate_datastore d c"
      by (simp add: locate_datastore_def split: sum.splits)
    with ds have ds0: "locate_datastore ?d c = Inr ds" by simp
    have src0: "source_of c (clone_template_uuid ?d) = Some (srcVM, vprops)" using src by simp
    have snap0: "clone_linked_clone ?d \<longrightarrow> validateCloneSnapshots vprops = None" by simp
    have pool0: "resourcepool_FromID c (resource_pool_id ?d) = Inr pool" using pool by simp
    have "locate_host ?d c = locate_host d c"
      by (simp add: locate_host_def split: sum.splits)
    with host have host0: "locate_host ?d c = Inr hs" by simp
    from expand_clone_steps[OF ds0 src0 snap0 pool0 host0] check disk same_disks vm same spec
    show ?thesis by (simp add: Let_def)
  qed
  from fields frame show ?thesis by blast
qed

theorem linked_clone_sets_two_fields_witness:
  "spec_Snapshot (fst (ExpandVirtualMachineCloneSpec (example_config\<lparr>clone_linked_clone := True\<rparr>)
       (example_client (example_source (Some example_single_snapshot)))))
     = Some (example_reference ''VirtualMachineSnapshot'' ''snapshot-12'')
   \<and> DiskMoveType (spec_Location (fst (ExpandVirtualMachineCloneSpec
       (example_config\<lparr>clone_linked_clone := True\<rparr>)
       (example_client (example_source (Some example_single_snapshot))))))
     = ''createNewChildDiskBacking''
   \<and> ExpandVirtualMachineCloneSpec example_config
       (example_client (example_source (Some example_single_snapshot)))
     = (fst (ExpandVirtualMachineCloneSpec (example_config\<lparr>clone_linked_clone := True\<rparr>)
          (example_client (example_source (Some example_single_snapshot))))
          \<lparr>spec_Snapshot := None,
           spec_Location := (spec_Location (fst (ExpandVirtualMachineCloneSpec
              (example_config\<lparr>clone_linked_clone := True\<rparr>)
              (example_client (example_source (Some example_single_snapshot))))))
                \<lparr>DiskMoveType := []\<rparr>\<rparr>,
        Some (example_reference ''VirtualMachine'' ''vm-42''), None)"
proof -
  let ?d = "example_config\<lparr>clone_linked_clone := True\<rparr>"
  let ?c = "example_client (example_source (Some example_single_snapshot))"
  let ?E = "ExpandVirtualMachineCloneSpec ?d ?c"
  have run: "?E = (fst ?E, Some (example_reference ''VirtualMachine'' ''vm-42''), None)"
    by (simp add: ExpandVirtualMachineCloneSpec_def example_defs evaluation_defs)
  have src: "source_of ?c (clone_template_uuid ?d)
      = Some (example_reference ''VirtualMachine'' ''vm-42'', example_source (Some example_single_snapshot))"
    by (simp add: example_defs evaluation_defs)
  have flag: "clone_linked_clone ?d" and off: "?d\<lparr>clone_linked_clone := False\<rparr> = example_config"
    by (simp_all add: example_defs)
  from linked_clone_sets_two_fields[OF run src] flag off show ?thesis
    by (simp add: example_defs)
qed

subsection \<open>The instant clone builder\<close>

text \<open>
  Claim C3. With \<open>devices\<close> the network adapters of the source in their original order and
  \<open>n\<close> the declared interfaces, a spec produced by
  \<^verbatim>\<open>ExpandVirtualMachineInstantCloneSpec\<close> holds exactly \<open>min (length devices) (length n)\<close>
  device-change instructions, the one at index \<open>i\<close> an edit operation wrapping device \<open>i\<close>
  rewritten from declaration \<open>i\<close>. Declarations beyond the devices yield no instruction;
  the adapters beyond the declarations and the devices that are no adapters are as they
  were in the hardware list the builder reads afterwards.
\<close>

theorem instant_clone_network_pairing:
  assumes "ExpandVirtualMachineInstantCloneSpec keys d c fo = (spec, vm, None)"
      and "source_of c (instantclone_source_uuid d) = Some (srcVM, vprops)"
      and "devices = filter is_ethernet_card (Hardware_Device (vm_Config vprops))"
      and "n = network_interface d"
  shows "length (DeviceChange (ispec_Location spec)) = min (length devices) (length n)
       \<and> (\<forall>i < min (length devices) (length n).
             paired_edit c (devices ! i) (n ! i) (DeviceChange (ispec_Location spec) ! i))
       \<and> drop (length n)
            (filter is_ethernet_card
               (rewritten_devices (Hardware_Device (vm_Config vprops))
                  (map Device (DeviceChange (ispec_Location spec)))))
           = drop (length n) devices
       \<and> filter (\<lambda>device. \<not> is_ethernet_card device)
            (rewritten_devices (Hardware_Device (vm_Config vprops))
               (map Device (DeviceChange (ispec_Location spec))))
           = filter (\<lambda>device. \<not> is_ethernet_card device) (Hardware_Device (vm_Config vprops))"
proof -
  let ?changes = "DeviceChange (ispec_Location spec)"
  from assms(2) have src: "virtualmachine_FromUUID c (instantclone_source_uuid d) = Inr srcVM"
    "virtualmachine_Properties c srcVM = Inr vprops"
    by (simp_all add: source_of_Some)
  from instant_clone_changes[OF assms(1) src] assms(3,4)
  have len: "length ?changes = min (length devices) (length n)"
    and pairs: "\<forall>i < length ?changes. paired_edit c (devices ! i) (n ! i) (?changes ! i)"
    by simp_all
  have eth: "\<forall>x \<in> set (map Device ?changes). is_ethernet_card x"
  proof
    fix x assume "x \<in> set (map Device ?changes)"
    then obtain i where "i < length ?changes" "x = Device (?changes ! i)"
      by (auto simp: in_set_conv_nth)
    with pairs show "is_ethernet_card x"
      by (auto dest: paired_edit_is_ethernet_card)
  qed
  have "length (map Device ?changes) \<le> length (filter is_ethernet_card (Hardware_Device (vm_Config vprops)))"
    using len assms(3) by simp
  from rewritten_devices_filter[OF eth this] len assms(3)
  have untouched: "drop (length n)
            (filter is_ethernet_card
               (rewritten_devices (Hardware_Device (vm_Config vprops)) (map Device ?changes)))
           = drop (length n) devices"
    by (auto simp: min_def)
  from len pairs untouched rewritten_devices_others[OF eth] show ?thesis
    by simp
qed

theorem instant_clone_network_pairing_witness:
  "length (DeviceChange (ispec_Location (fst (ExpandVirtualMachineInstantCloneSpec
       [''guestinfo.a'', ''guestinfo.b''] example_config (example_client (example_source None))
       example_folder)))) = 2
   \<and> map (\<lambda>change. (Operation change, map_option Key (GetVirtualEthernetCard (Device change))))
       (DeviceChange (ispec_Location (fst (ExpandVirtualMachineInstantCloneSpec
          [''guestinfo.a'', ''guestinfo.b''] example_config (example_client (example_source None))
          example_folder))))
     = [(''edit'', Some 4000), (''edit'', Some 4001)]
   \<and> length (DeviceChange (ispec_Location (fst (ExpandVirtualMachineInstantCloneSpec
       [''guestinfo.a'', ''guestinfo.b'']
       (example_config\<lparr>network_interface := replicate 4 (example_interface ''network-7'' False [])\<rparr>)
       (example_client (example_source None)) example_folder)))) = 3"
proof -
  let ?c = "example_client (example_source None)"
  let ?d = "example_config\<lparr>network_interface := replicate 4 (example_interface ''network-7'' False [])\<rparr>"
  let ?E = "ExpandVirtualMachineInstantCloneSpec [''guestinfo.a'', ''guestinfo.b''] example_config ?c example_folder"
  let ?F = "ExpandVirtualMachineInstantCloneSpec [''guestinfo.a'', ''guestinfo.b''] ?d ?c example_folder"
  have runE: "?E = (fst ?E, fst (snd ?E), None)"
    by (simp add: ExpandVirtualMachineInstantCloneSpec_def example_defs evaluation_defs)
  have runF: "?F = (fst ?F, fst (snd ?F), None)"
    by (simp add: ExpandVirtualMachineInstantCloneSpec_def example_defs evaluation_defs
          numeral_eq_Suc)
  have src: "source_of ?c (instantclone_source_uuid example_config)
               = Some (example_reference ''VirtualMachine'' ''vm-42'', example_source None)"
    "source_of ?c (instantclone_source_uuid ?d)
               = Some (example_reference ''VirtualMachine'' ''vm-42'', example_source None)"
    by (simp_all add: example_defs evaluation_defs)
  from instant_clone_network_pairing[OF runE src(1) refl refl]
    instant_clone_network_pairing[OF runF src(2) refl refl]
  have "length (DeviceChange (ispec_Location (fst ?E))) = 2"
    and "length (DeviceChange (ispec_Location (fst ?F))) = 3"
    by (simp_all add: example_defs evaluation_defs)
  moreover have "map (\<lambda>change. (Operation change, map_option Key (GetVirtualEthernetCard (Device change))))
       (DeviceChange (ispec_Location (fst ?E))) = [(''edit'', Some 4000), (''edit'', Some 4001)]"
    by (simp add: ExpandVirtualMachineInstantCloneSpec_def example_defs evaluation_defs)
  ultimately show ?thesis by simp
qed

text \<open>
  Claim C5. In a spec produced by \<^verbatim>\<open>ExpandVirtualMachineInstantCloneSpec\<close>, the adapter
  paired with a declared interface whose static-MAC flag is false has an empty address
  type and an empty MAC address, whatever the source device had before; with the flag
  true the address type is \<^verbatim>\<open>manual\<close> and the MAC address is the declared one.
\<close>

theorem static_mac_is_hard_reset:
  assumes "ExpandVirtualMachineInstantCloneSpec keys d c fo = (spec, vm, None)"
      and "source_of c (instantclone_source_uuid d) = Some (srcVM, vprops)"
      and "i < length (filter is_ethernet_card (Hardware_Device (vm_Config vprops)))"
      and "i < length (network_interface d)"
  shows "i < length (DeviceChange (ispec_Location spec))
       \<and> (\<exists>ethernetCard.
             Device (DeviceChange (ispec_Location spec) ! i) = EthernetCard ethernetCard
           \<and> (if use_static_mac (network_interface d ! i)
              then AddressType ethernetCard = ''manual''
                 \<and> MacAddress ethernetCard = mac_address (network_interface d ! i)
              else AddressType ethernetCard = [] \<and> MacAddress ethernetCard = []))"
proof -
  let ?changes = "DeviceChange (ispec_Location spec)"
  from assms(2) have src: "virtualmachine_FromUUID c (instantclone_source_uuid d) = Inr srcVM"
    "virtualmachine_Properties c srcVM = Inr vprops"
    by (simp_all add: source_of_Some)
  from instant_clone_changes[OF assms(1) src] assms(3,4)
  have i: "i < length ?changes"
    and "paired_edit c (filter is_ethernet_card (Hardware_Device (vm_Config vprops)) ! i)
           (network_interface d ! i) (?changes ! i)"
    by simp_all
  from this(2) obtain ethernetCard where "Device (?changes ! i) = EthernetCard ethernetCard"
    "AddressType ethernetCard = (if use_static_mac (network_interface d ! i) then ''manual'' else [])"
    "MacAddress ethernetCard
       = (if use_static_mac (network_interface d ! i) then mac_address (network_interface d ! i) else [])"
    by (rule paired_edit_mac)
  with i show ?thesis by simp
qed

theorem static_mac_is_hard_reset_witness:
  "map_option AddressType (GetVirtualEthernetCard (example_hardware ! 1)) = Some ''manual''
   \<and> map_option AddressType (GetVirtualEthernetCard (Device (DeviceChange (ispec_Location
        (fst (ExpandVirtualMachineInstantCloneSpec [''guestinfo.a'', ''guestinfo.b'']
           example_config (example_client (example_source None)) example_folder))) ! 0)))
       = Some []
   \<and> map_option MacAddress (GetVirtualEthernetCard (Device (DeviceChange (ispec_Location
        (fst (ExpandVirtualMachineInstantCloneSpec [''guestinfo.a'', ''guestinfo.b'']
           example_config (example_client (example_source None)) example_folder))) ! 0)))
       = Some []
   \<and> map_option AddressType (GetVirtualEthernetCard (Device (DeviceChange (ispec_Location
        (fst (ExpandVirtualMachineInstantCloneSpec [''guestinfo.a'', ''guestinfo.b'']
           example_config (example_client (example_source None)) example_folder))) ! 1)))
       = Some ''manual''
   \<and> map_option MacAddress (GetVirtualEthernetCard (Device (DeviceChange (ispec_Location
        (fst (ExpandVirtualMachineInstantCloneSpec [''guestinfo.a'', ''guestinfo.b'']
           example_config (example_client (example_source None)) example_folder))) ! 1)))
       = Some ''00:50:56:aa:bb:02''"
proof -
  let ?c = "example_client (example_source None)"
  let ?E = "ExpandVirtualMachineInstantCloneSpec [''guestinfo.a'', ''guestinfo.b''] example_config ?c example_folder"
  have run: "?E = (fst ?E, fst (snd ?E), None)"
    by (simp add: ExpandVirtualMachineInstantCloneSpec_def example_defs evaluation_defs)
  have src: "source_of ?c (instantclone_source_uuid example_config)
               = Some (example_reference ''VirtualMachine'' ''vm-42'', example_source None)"
    by (simp add: example_defs evaluation_defs)
  have bounds: "0 < length (filter is_ethernet_card (Hardware_Device (vm_Config (example_source None))))"
    "0 < length (network_interface example_config)"
    "1 < length (filter is_ethernet_card (Hardware_Device (vm_Config (example_source None))))"
    "1 < length (network_interface example_config)"
    by (simp_all add: example_defs evaluation_defs)
  have declared: "\<not> use_static_mac (network_interface example_config ! 0)"
    "use_static_mac (network_interface example_config ! 1)"
    "mac_address (network_interface example_config ! 1) = ''00:50:56:aa:bb:02''"
    by (simp_all add: example_defs)
  have before: "map_option AddressType (GetVirtualEthernetCard (example_hardware ! 1)) = Some ''manual''"
    by (simp add: example_defs)
  from static_mac_is_hard_reset[OF run src bounds(1,2)]
    static_mac_is_hard_reset[OF run src bounds(3,4)] declared before
  show ?thesis by auto
qed

text \<open>
  Claim C9 as stated fails: the entries follow the iteration over a Go map, whose order the
  runtime picks for each loop. Two runs on the same mapping that visit it in different
  orders both succeed and produce the entries in different orders.
\<close>

theorem extra_config_order_counterexample:
  "map_iteration (extra_config example_config) [''guestinfo.a'', ''guestinfo.b'']
   \<and> map_iteration (extra_config example_config) [''guestinfo.b'', ''guestinfo.a'']
   \<and> snd (snd (ExpandVirtualMachineInstantCloneSpec [''guestinfo.a'', ''guestinfo.b'']
        example_config (example_client (example_source None)) example_folder)) = None
   \<and> snd (snd (ExpandVirtualMachineInstantCloneSpec [''guestinfo.b'', ''guestinfo.a'']
        example_config (example_client (example_source None)) example_folder)) = None
   \<and> ispec_Config (fst (ExpandVirtualMachineInstantCloneSpec [''guestinfo.a'', ''guestinfo.b'']
        example_config (example_client (example_source None)) example_folder))
     \<noteq> ispec_Config (fst (ExpandVirtualMachineInstantCloneSpec [''guestinfo.b'', ''guestinfo.a'']
        example_config (example_client (example_source None)) example_folder))"
  by (auto simp: map_iteration_def ExpandVirtualMachineInstantCloneSpec_def example_defs
        evaluation_defs)

text \<open>
  Claim C9, amended. In a spec produced by \<^verbatim>\<open>ExpandVirtualMachineInstantCloneSpec\<close> the
  extra-configuration entries stand in the order in which this run's iteration visits the
  keys of the mapping; every key/value pair of the mapping appears exactly once and
  nothing else does, so two runs on the same mapping produce the same set of entries.
\<close>

theorem extra_config_entries_follow_map_iteration:
  assumes "ExpandVirtualMachineInstantCloneSpec keys d c fo = (spec, vm, None)"
      and "map_iteration (extra_config d) keys"
  shows "map opt_Key (ispec_Config spec) = keys
       \<and> distinct (map opt_Key (ispec_Config spec))
       \<and> (\<forall>entry \<in> set (ispec_Config spec).
             extra_config d (opt_Key entry) = Some (opt_Value entry))
       \<and> (\<forall>k v. extra_config d k = Some v \<longrightarrow>
             \<lparr>opt_Key = k, opt_Value = v\<rparr> \<in> set (ispec_Config spec))
       \<and> (\<forall>keys' spec' vm'.
             map_iteration (extra_config d) keys'
             \<and> ExpandVirtualMachineInstantCloneSpec keys' d c fo = (spec', vm', None) \<longrightarrow>
             set (ispec_Config spec') = set (ispec_Config spec))"
proof -
  let ?entry = "\<lambda>(k, v). \<lparr>opt_Key = k, opt_Value = v\<rparr>"
  have config: "ispec_Config spec = map ?entry (range_map (extra_config d) keys)"
    by (rule expand_instant_config[OF assms(1)])
  from assms(2) have keys: "distinct keys" "set keys = dom (extra_config d)"
    by (simp_all add: map_iteration_def)
  have "map opt_Key (ispec_Config spec) = map fst (range_map (extra_config d) keys)"
    by (simp add: config case_prod_beta comp_def)
  with keys have order: "map opt_Key (ispec_Config spec) = keys"
    by (simp add: range_map_keys)
  have entries: "set (ispec_Config spec)
      = {\<lparr>opt_Key = k, opt_Value = v\<rparr> | k v. extra_config d k = Some v}"
    unfolding config config_entries using keys(2) by auto
  have others: "set (ispec_Config spec') = set (ispec_Config spec)"
    if "map_iteration (extra_config d) keys'"
      and "ExpandVirtualMachineInstantCloneSpec keys' d c fo = (spec', vm', None)"
    for keys' spec' vm'
  proof -
    from that(1) have "set keys' = dom (extra_config d)" by (simp add: map_iteration_def)
    then have "set (ispec_Config spec')
      = {\<lparr>opt_Key = k, opt_Value = v\<rparr> | k v. extra_config d k = Some v}"
      unfolding expand_instant_config[OF that(2)] config_entries by auto
    with entries show ?thesis by simp
  qed
  from order keys(1) entries others show ?thesis
    by auto
qed

theorem extra_config_entries_follow_map_iteration_witness:
  "map opt_Key (ispec_Config (fst (ExpandVirtualMachineInstantCloneSpec
       [''guestinfo.b'', ''guestinfo.a''] example_config (example_client (example_source None))
       example_folder)))
     = [''guestinfo.b'', ''guestinfo.a'']
   \<and> \<lparr>opt_Key = ''guestinfo.a'', opt_Value = ''1''\<rparr>
       \<in> set (ispec_Config (fst (ExpandVirtualMachineInstantCloneSpec
           [''guestinfo.b'', ''guestinfo.a''] example_config (example_client (example_source None))
           example_folder)))
   \<and> \<lparr>opt_Key = ''guestinfo.b'', opt_Value = ''2''\<rparr>
       \<in> set (ispec_Config (fst (ExpandVirtualMachineInstantCloneSpec
           [''guestinfo.b'', ''guestinfo.a''] example_config (example_client (example_source None))
           example_folder)))"
proof -
  let ?c = "example_client (example_source None)"
  let ?keys = "[''guestinfo.b'', ''guestinfo.a'']"
  let ?E = "ExpandVirtualMachineInstantCloneSpec ?keys example_config ?c example_folder"
  have run: "?E = (fst ?E, fst (snd ?E), None)"
    by (simp add: ExpandVirtualMachineInstantCloneSpec_def example_defs evaluation_defs)
  have order: "map_iteration (extra_config example_config) ?keys"
    by (auto simp: map_iteration_def example_defs)
  have declared: "extra_config example_config ''guestinfo.a'' = Some ''1''"
    "extra_config example_config ''guestinfo.b'' = Some ''2''"
    by (simp_all add: example_defs)
  from extra_config_entries_follow_map_iteration[OF run order] declared
  show ?thesis by blast
qed

subsection \<open>Both builders\<close>

text \<open>
  Claim C7. Each builder is to return either a complete spec with no error or an error and
  no usable spec. Both builders dereference a pointer they have not tested, and on a
  \<^verbatim>\<open>nil\<close> pointer they panic and return neither. The traditional builder with the
  linked-clone flag set reaches line 167 through \<^verbatim>\<open>validateCloneSnapshots\<close> on a source
  with a single childless root and no current snapshot; the instant clone builder reaches
  line 334 on a network adapter without a resource allocation that a declared interface
  is paired with.
\<close>

theorem expand_panics_on_nil_pointer:
  "snd (ExpandVirtualMachineCloneSpec (example_config\<lparr>clone_linked_clone := True\<rparr>)
          (example_client (example_source (Some example_no_current))))
     = (None, Some NilPointerPanic)
   \<and> snd (ExpandVirtualMachineInstantCloneSpec [''guestinfo.a'', ''guestinfo.b''] example_config
          (example_client example_source_without_allocation) example_folder)
     = (None, Some NilPointerPanic)"
  by (simp add: ExpandVirtualMachineCloneSpec_def ExpandVirtualMachineInstantCloneSpec_def
        example_defs evaluation_defs)

text \<open>
  Claim C8. The traditional builder, once it has resolved the resource pool and a declared
  host, fails with the host-not-in-pool error if the host is not among the hosts of the
  pool's compute environment, and with no such error if it is; here
  \<^verbatim>\<open>resourcepool.ValidateHost\<close> is the check of the spec. The instant clone builder never
  consults the host check or the host lookup: its result is the same whatever they
  answer.
\<close>

theorem host_in_pool_check_is_asymmetric:
  "(resourcepool_ValidateHost c = ValidateHost hosts
      \<and> locate_datastore d c = Inr ds
      \<and> source_of c (clone_template_uuid d) = Some (vm, vprops)
      \<and> (clone_linked_clone d \<longrightarrow> validateCloneSnapshots vprops = None)
      \<and> resourcepool_FromID c (resource_pool_id d) = Inr pool
      \<and> GetOk (host_system_id d)
      \<and> hostsystem_FromID c (host_system_id d) = Inr host \<longrightarrow>
      (if host \<in> set (hosts pool)
       then \<nexists>h p. snd (snd (ExpandVirtualMachineCloneSpec d c)) = Some (HostNotInPool h p)
       else snd (ExpandVirtualMachineCloneSpec d c)
              = (None, Some (HostNotInPool (Value host) (Value pool)))))
   \<and> ExpandVirtualMachineInstantCloneSpec keys d
        (c\<lparr>resourcepool_ValidateHost := check, hostsystem_FromID := locate\<rparr>) fo
       = ExpandVirtualMachineInstantCloneSpec keys d c fo"
proof
  show "resourcepool_ValidateHost c = ValidateHost hosts
      \<and> locate_datastore d c = Inr ds
      \<and> source_of c (clone_template_uuid d) = Some (vm, vprops)
      \<and> (clone_linked_clone d \<longrightarrow> validateCloneSnapshots vprops = None)
      \<and> resourcepool_FromID c (resource_pool_id d) = Inr pool
      \<and> GetOk (host_system_id d)
      \<and> hostsystem_FromID c (host_system_id d) = Inr host \<longrightarrow>
      (if host \<in> set (hosts pool)
       then \<nexists>h p. snd (snd (ExpandVirtualMachineCloneSpec d c)) = Some (HostNotInPool h p)
       else snd (ExpandVirtualMachineCloneSpec d c)
              = (None, Some (HostNotInPool (Value host) (Value pool))))"
  proof (intro impI, elim conjE)
    assume check: "resourcepool_ValidateHost c = ValidateHost hosts"
      and ds: "locate_datastore d c = Inr ds"
      and src: "source_of c (clone_template_uuid d) = Some (vm, vprops)"
      and snap: "clone_linked_clone d \<longrightarrow> validateCloneSnapshots vprops = None"
      and pool: "resourcepool_FromID c (resource_pool_id d) = Inr pool"
      and declared: "GetOk (host_system_id d)"
      and host: "hostsystem_FromID c (host_system_id d) = Inr host"
    from declared host have hs: "locate_host d c = Inr (Some host)"
      by (simp add: locate_host_def)
    note step = expand_clone_steps[OF ds src snap pool hs]
    show "if host \<in> set (hosts pool)
       then \<nexists>h p. snd (snd (ExpandVirtualMachineCloneSpec d c)) = Some (HostNotInPool h p)
       else snd (ExpandVirtualMachineCloneSpec d c)
              = (None, Some (HostNotInPool (Value host) (Value pool)))"
      unfolding step check
      by (auto simp: ValidateHost_def Let_def split: sum.splits)
  qed
next
  have loop: "update_network_devices
        (c\<lparr>resourcepool_ValidateHost := check, hostsystem_FromID := locate\<rparr>) n index devices
        configSpecs spec
      = update_network_devices c n index devices configSpecs spec"
    for n index devices configSpecs spec
    by (induction devices arbitrary: index configSpecs spec)
       (auto simp: Let_def split: sum.splits option.splits)
  show "ExpandVirtualMachineInstantCloneSpec keys d
        (c\<lparr>resourcepool_ValidateHost := check, hostsystem_FromID := locate\<rparr>) fo
       = ExpandVirtualMachineInstantCloneSpec keys d c fo"
    by (auto simp: ExpandVirtualMachineInstantCloneSpec_def Let_def loop
          split: sum.splits if_splits prod.splits)
qed

theorem host_in_pool_check_is_asymmetric_witness:
  "snd (ExpandVirtualMachineCloneSpec (example_config\<lparr>host_system_id := ''host-3''\<rparr>)
          (example_client (example_source None)))
     = (None, Some (HostNotInPool ''host-3'' ''resgroup-8''))
   \<and> (\<nexists>h p. snd (snd (ExpandVirtualMachineCloneSpec (example_config\<lparr>host_system_id := ''host-9''\<rparr>)
          (example_client (example_source None)))) = Some (HostNotInPool h p))
   \<and> ExpandVirtualMachineInstantCloneSpec [''guestinfo.a'', ''guestinfo.b'']
        (example_config\<lparr>host_system_id := ''host-3''\<rparr>)
        (example_client (example_source None)
           \<lparr>resourcepool_ValidateHost := (\<lambda>pool hs. Some (HostNotInPool ''any'' ''any'')),
            hostsystem_FromID := (\<lambda>i. Inl ''no host'')\<rparr>) example_folder
     = ExpandVirtualMachineInstantCloneSpec [''guestinfo.a'', ''guestinfo.b'']
        (example_config\<lparr>host_system_id := ''host-3''\<rparr>)
        (example_client (example_source None)) example_folder"
proof -
  let ?c = "example_client (example_source None)"
  let ?d3 = "example_config\<lparr>host_system_id := ''host-3''\<rparr>"
  let ?d9 = "example_config\<lparr>host_system_id := ''host-9''\<rparr>"
  let ?pool = "example_reference ''ResourcePool'' ''resgroup-8''"
  have reached: "resourcepool_ValidateHost ?c = ValidateHost example_hosts
      \<and> locate_datastore d ?c = Inr (Some (example_reference ''Datastore'' ''datastore-11''))
      \<and> source_of ?c (clone_template_uuid d)
          = Some (example_reference ''VirtualMachine'' ''vm-42'', example_source None)
      \<and> (clone_linked_clone d \<longrightarrow> validateCloneSnapshots (example_source None) = None)
      \<and> resourcepool_FromID ?c (resource_pool_id d) = Inr ?pool
      \<and> GetOk (host_system_id d)
      \<and> hostsystem_FromID ?c (host_system_id d)
          = Inr (example_reference ''HostSystem'' (host_system_id d))"
    if "d = ?d3 \<or> d = ?d9" for d
    using that by (auto simp: example_defs evaluation_defs)
  have members: "example_reference ''HostSystem'' (host_system_id ?d3) \<notin> set (example_hosts ?pool)"
    "example_reference ''HostSystem'' (host_system_id ?d9) \<in> set (example_hosts ?pool)"
    by (simp_all add: example_defs)
  from host_in_pool_check_is_asymmetric[where c = ?c and hosts = example_hosts and d = ?d3
      and ds = "Some (example_reference ''Datastore'' ''datastore-11'')"
      and vm = "example_reference ''VirtualMachine'' ''vm-42''" and vprops = "example_source None"
      and pool = ?pool and host = "example_reference ''HostSystem'' (host_system_id ?d3)"
      and keys = "[''guestinfo.a'', ''guestinfo.b'']"
      and check = "\<lambda>pool hs. Some (HostNotInPool ''any'' ''any'')"
      and locate = "\<lambda>i. Inl ''no host''" and fo = example_folder]
    host_in_pool_check_is_asymmetric[where c = ?c and hosts = example_hosts and d = ?d9
      and ds = "Some (example_reference ''Datastore'' ''datastore-11'')"
      and vm = "example_reference ''VirtualMachine'' ''vm-42''" and vprops = "example_source None"
      and pool = ?pool and host = "example_reference ''HostSystem'' (host_system_id ?d9)"]
    reached[of ?d3] reached[of ?d9] members
  show ?thesis
    by (simp add: example_reference_def)
qed

section \<open>Further properties\<close>

text \<open>
  The type assertion of line 328 never fails: the loop runs over the devices
  that \<^verbatim>\<open>devices.Select\<close> kept, which all implement \<^verbatim>\<open>types.BaseVirtualEthernetCard\<close>, so
  \<^verbatim>\<open>ExpandVirtualMachineInstantCloneSpec\<close> never ends in the panic of a failed assertion.
\<close>

theorem instant_clone_type_assertion_never_fails:
  "snd (snd (ExpandVirtualMachineInstantCloneSpec keys d c fo)) \<noteq> Some TypeAssertionPanic"
proof -
  have "update_network_devices c n 0 (filter is_ethernet_card hw) [] spec
          \<noteq> Inl (spec', TypeAssertionPanic)" for n hw spec spec'
    by (rule update_network_devices_no_panic) simp
  then show ?thesis
    by (auto simp: ExpandVirtualMachineInstantCloneSpec_def Let_def
          split: sum.split prod.split)
qed

end
